theory Spec2Isabelle
  imports Complex_Main "HOL-Library.List_Lexorder" "HOL-Library.Char_ord" "HOL-Library.Log_Nat"
begin

section \<open>Domain model (models/shipment.py)\<close>

text \<open>
  Python values are modelled as follows: \<open>str\<close> as \<open>string\<close>, \<open>Optional[T]\<close> as
  \<open>T option\<close>, a finite \<open>float\<close> as the \<open>real\<close> it denotes, an insertion-ordered
  \<open>dict\<close> as an association list, a str-valued \<open>Enum\<close> as a datatype together with
  the function giving the member's string value. Strings are compared as Python
  compares them: lexicographically by character code, which is the order of
  \<open>List_Lexorder\<close> over \<open>Char_ord\<close>.
\<close>

datatype TransportMode = COURIER | AIR | SEA | TRUCK | MODE_UNKNOWN

datatype DocumentType =
    COURIER_LABEL | AIR_WAYBILL | COMMERCIAL_INVOICE | PACKING_LIST | CARGO_PERMIT
  | SHIPMENT_REPORT | PURCHASE_ORDER | BILL_OF_LADING | OTHER | UNKNOWN

datatype ExtractionConfidence = HIGH | MEDIUM | LOW

fun confidence_value :: "ExtractionConfidence \<Rightarrow> string" where
  "confidence_value HIGH = ''HIGH''"
| "confidence_value MEDIUM = ''MEDIUM''"
| "confidence_value LOW = ''LOW''"

datatype ValidationSeverity = ERROR | WARNING | INFO

record ValidationIssue =
  vi_severity :: ValidationSeverity
  vi_field :: string
  vi_message :: string
  vi_suggestion :: "string option"

datatype date = Date int int int

record ExtractionResult =
  er_document_type :: DocumentType
  er_confidence :: ExtractionConfidence
  er_tracking_or_awb :: "string option"
  er_ship_date :: "date option"
  er_mode :: "TransportMode option"
  er_flight_numbers :: "string list"
  er_origin_country :: "string option"
  er_destination_country :: "string option"
  er_incoterms :: "string option"
  er_currency :: "string option"
  er_total_value :: "real option"
  er_carrier :: "string option"
  er_vessel_info :: "string option"
  er_container_number :: "string option"
  er_brand_codes :: "string list"
  er_page_number :: int
  er_raw_response :: string
  er_notes :: string
  er_extraction_errors :: "string list"

text \<open>The dataclass defaults: every field but the first two has one.\<close>

definition ExtractionResult_init :: "DocumentType \<Rightarrow> ExtractionConfidence \<Rightarrow> ExtractionResult" where
  "ExtractionResult_init dt c =
     \<lparr> er_document_type = dt, er_confidence = c, er_tracking_or_awb = None,
       er_ship_date = None, er_mode = None, er_flight_numbers = [],
       er_origin_country = None, er_destination_country = None, er_incoterms = None,
       er_currency = None, er_total_value = None, er_carrier = None,
       er_vessel_info = None, er_container_number = None, er_brand_codes = [],
       er_page_number = 0, er_raw_response = [], er_notes = [],
       er_extraction_errors = [] \<rparr>"

text \<open>Python truthiness of an \<open>Optional[str]\<close>: \<open>None\<close> and the empty string are false.\<close>

fun truthy :: "string option \<Rightarrow> bool" where
  "truthy None = False"
| "truthy (Some s) = (s \<noteq> [])"

section \<open>Document aggregation (extractors/vision\_extractor.py)\<close>

text \<open>
  The dictionary built by \<open>DocumentAggregator.aggregate_inbound\<close>. The key
  \<open>flight_vessel\<close> is only set on some paths; \<open>None\<close> stands for the absent key.
\<close>

record Aggregated =
  agg_tracking_or_awb :: "string option"
  agg_ship_date :: "date option"
  agg_mode :: "TransportMode option"
  agg_flight_numbers :: "string list"
  agg_vessel_info :: "string option"
  agg_container_number :: "string option"
  agg_origin_country :: "string option"
  agg_incoterms :: "string option"
  agg_carrier :: "string option"
  agg_brand_codes :: "string list"
  agg_confidence :: ExtractionConfidence
  agg_raw_responses :: "string list"
  agg_errors :: "string list"
  agg_flight_vessel :: "string option"

definition aggregated_init :: Aggregated where
  "aggregated_init =
     \<lparr> agg_tracking_or_awb = None, agg_ship_date = None, agg_mode = None,
       agg_flight_numbers = [], agg_vessel_info = None, agg_container_number = None,
       agg_origin_country = None, agg_incoterms = None, agg_carrier = None,
       agg_brand_codes = [], agg_confidence = LOW, agg_raw_responses = [],
       agg_errors = [], agg_flight_vessel = None \<rparr>"

definition priority_types :: "DocumentType list" where
  "priority_types = [COURIER_LABEL, AIR_WAYBILL, BILL_OF_LADING]"

definition is_priority :: "ExtractionResult \<Rightarrow> bool" where
  "is_priority r = (er_document_type r \<in> set priority_types)"

text \<open>
  One iteration of the loop over the page results. Every statement of the loop body
  assigns one key from the old value of that key and the page, so the body is one
  record whose fields are computed side by side, in the order of the source.
\<close>

definition aggregate_step :: "Aggregated \<Rightarrow> ExtractionResult \<Rightarrow> Aggregated" where
  "aggregate_step a r =
     \<lparr> agg_tracking_or_awb =
         (if truthy (er_tracking_or_awb r) \<and> (is_priority r \<or> agg_tracking_or_awb a = None)
          then er_tracking_or_awb r else agg_tracking_or_awb a),
       agg_ship_date =
         (if er_ship_date r \<noteq> None \<and> (is_priority r \<or> agg_ship_date a = None)
          then er_ship_date r else agg_ship_date a),
       agg_mode =
         (if er_mode r \<noteq> None \<and> er_mode r \<noteq> Some MODE_UNKNOWN
             \<and> (is_priority r \<or> agg_mode a = None)
          then er_mode r else agg_mode a),
       agg_flight_numbers =
         (if er_flight_numbers r \<noteq> [] then agg_flight_numbers a @ er_flight_numbers r
          else agg_flight_numbers a),
       agg_vessel_info =
         (if truthy (er_vessel_info r) \<and> agg_vessel_info a = None
          then er_vessel_info r else agg_vessel_info a),
       agg_container_number =
         (if truthy (er_container_number r) \<and> agg_container_number a = None
          then er_container_number r else agg_container_number a),
       agg_origin_country =
         (if truthy (er_origin_country r) \<and> (is_priority r \<or> agg_origin_country a = None)
          then er_origin_country r else agg_origin_country a),
       agg_incoterms =
         (if truthy (er_incoterms r) \<and> agg_incoterms a = None
          then er_incoterms r else agg_incoterms a),
       agg_carrier =
         (if truthy (er_carrier r) \<and> (is_priority r \<or> agg_carrier a = None)
          then er_carrier r else agg_carrier a),
       agg_brand_codes =
         (if er_brand_codes r \<noteq> [] \<and> er_document_type r = PURCHASE_ORDER
          then agg_brand_codes a @ er_brand_codes r else agg_brand_codes a),
       agg_confidence =
         (if confidence_value (er_confidence r) < confidence_value (agg_confidence a)
          then er_confidence r else agg_confidence a),
       agg_raw_responses = agg_raw_responses a @ [er_raw_response r],
       agg_errors = agg_errors a @ er_extraction_errors r,
       agg_flight_vessel = agg_flight_vessel a \<rparr>"

text \<open>\<open>" / ".join(xs)\<close>\<close>

fun join_slash :: "string list \<Rightarrow> string" where
  "join_slash [] = []"
| "join_slash [x] = x"
| "join_slash (x # y # ys) = x @ '' / '' @ join_slash (y # ys)"

text \<open>
  The statements after the loop. \<open>list(set(xs))\<close> lists the distinct elements of
  \<open>xs\<close> in an order the interpreter chooses; that choice is the parameter \<open>enum\<close>.
  \<open>sorted(list(set(xs)))\<close> does not depend on it.
\<close>

definition aggregate_finish :: "(string list \<Rightarrow> string list) \<Rightarrow> Aggregated \<Rightarrow> Aggregated" where
  "aggregate_finish enum a =
     (let fl = enum (agg_flight_numbers a);
          bc = sort (remdups (agg_brand_codes a));
          b = a\<lparr>agg_flight_numbers := fl, agg_brand_codes := bc\<rparr>
      in if agg_mode b = Some SEA then
           (if truthy (agg_vessel_info b) then
              (if truthy (agg_container_number b)
               then b\<lparr>agg_flight_vessel :=
                      Some (the (agg_vessel_info b) @ '' / '' @ the (agg_container_number b))\<rparr>
               else b\<lparr>agg_flight_vessel := agg_vessel_info b\<rparr>)
            else b)
         else
           (if fl \<noteq> [] then b\<lparr>agg_flight_vessel := Some (join_slash fl)\<rparr> else b))"

definition aggregate_inbound ::
  "(string list \<Rightarrow> string list) \<Rightarrow> ExtractionResult list \<Rightarrow> string \<Rightarrow> Aggregated" where
  "aggregate_inbound enum results filename =
     aggregate_finish enum (foldl aggregate_step aggregated_init results)"

section \<open>Strings and number formatting\<close>

text \<open>
  A \<open>char\<close> is a code point below 256 (Latin-1); text with other code points is
  outside the model. On these code points the classes are Python's: \<open>\<^verbatim>\<open>\d\<close>\<close>,
  \<open>\<^verbatim>\<open>\w\<close>\<close> and \<open>\<^verbatim>\<open>\s\<close>\<close> of \<open>re\<close> on \<open>str\<close> patterns, \<open>str.isspace\<close>
  (which \<open>str.strip\<close> uses), \<open>str.isdigit\<close> and \<open>str.lower\<close>.
\<close>

definition is_digit :: "char \<Rightarrow> bool" where
  "is_digit c = (CHR ''0'' \<le> c \<and> c \<le> CHR ''9'')"

text \<open>\<open>str.isdigit\<close> also takes the superscript digits of Latin-1.\<close>

definition py_isdigit :: "char \<Rightarrow> bool" where
  "py_isdigit c = (is_digit c \<or> c = CHR 0xB2 \<or> c = CHR 0xB3 \<or> c = CHR 0xB9)"

definition is_word :: "char \<Rightarrow> bool" where
  "is_word c =
     (is_digit c \<or> (CHR ''A'' \<le> c \<and> c \<le> CHR ''Z'') \<or> c = CHR ''_''
      \<or> (CHR ''a'' \<le> c \<and> c \<le> CHR ''z'')
      \<or> c = CHR 0xAA \<or> c = CHR 0xB2 \<or> c = CHR 0xB3 \<or> c = CHR 0xB5
      \<or> c = CHR 0xB9 \<or> c = CHR 0xBA \<or> (CHR 0xBC \<le> c \<and> c \<le> CHR 0xBE)
      \<or> (CHR 0xC0 \<le> c \<and> c \<le> CHR 0xD6) \<or> (CHR 0xD8 \<le> c \<and> c \<le> CHR 0xF6)
      \<or> CHR 0xF8 \<le> c)"

definition is_space :: "char \<Rightarrow> bool" where
  "is_space c = ((CHR 0x09 \<le> c \<and> c \<le> CHR 0x0D) \<or> (CHR 0x1C \<le> c \<and> c \<le> CHR 0x20)
                  \<or> c = CHR 0x85 \<or> c = CHR 0xA0)"

text \<open>\<open>p in s\<close> for two strings, and \<open>s.startswith(p)\<close>.\<close>

fun starts_with :: "string \<Rightarrow> string \<Rightarrow> bool" where
  "starts_with [] s = True"
| "starts_with (p # ps) [] = False"
| "starts_with (p # ps) (c # cs) = (p = c \<and> starts_with ps cs)"

fun contains :: "string \<Rightarrow> string \<Rightarrow> bool" where
  "contains p [] = (p = [])"
| "contains p (c # cs) = (starts_with p (c # cs) \<or> contains p cs)"

text \<open>\<open>str(n)\<close> for a natural number.\<close>

definition digit_char :: "nat \<Rightarrow> char" where
  "digit_char n = char_of (48 + n)"

fun str_nat :: "nat \<Rightarrow> string" where
  "str_nat n = (if n < 10 then [digit_char n] else str_nat (n div 10) @ [digit_char (n mod 10)])"

declare str_nat.simps [simp del]

text \<open>
  The format specification \<open>.df\<close> on a real number: the value is rounded to \<open>d\<close>
  decimals, ties to even, and written with a leading minus sign when negative.
\<close>

definition round_half_even :: "real \<Rightarrow> int" where
  "round_half_even x =
     (let f = \<lfloor>x\<rfloor>; r = x - of_int f
      in if r < 1 / 2 then f else if 1 / 2 < r then f + 1 else if even f then f else f + 1)"

definition fmt_fixed :: "nat \<Rightarrow> real \<Rightarrow> string" where
  "fmt_fixed d x =
     (let n = nat (round_half_even (\<bar>x\<bar> * 10 ^ d));
          ip = str_nat (n div 10 ^ d);
          fp = str_nat (n mod 10 ^ d)
      in (if x < 0 then ''-'' else []) @ ip @
         (if d = 0 then [] else ''.'' @ replicate (d - length fp) CHR ''0'' @ fp))"

section \<open>Double-precision arithmetic\<close>

text \<open>
  A Python \<open>float\<close> is an IEEE 754 binary64 number. An arithmetic operation on floats
  computes the exact result and rounds it to the nearest double, ties to even:
  \<open>round_double\<close>. The significand has 53 bits, so a number in the binade
  \<open>2^e \<le> |x| < 2^(e+1)\<close> is rounded to a multiple of \<open>2^(e-52)\<close>; below
  \<open>2^(-1022)\<close> the step stays \<open>2^(-1074)\<close> (subnormal numbers). A result whose
  rounded magnitude reaches \<open>2^1024\<close> is an infinity. A float literal of the source
  such as \<open>0.2\<close> denotes \<open>round_double 0.2\<close>.
\<close>

definition binade :: "real \<Rightarrow> int" where
  "binade x = (if 1 \<le> \<bar>x\<bar> then bitlen \<lfloor>\<bar>x\<bar>\<rfloor> - 1 else - bitlen (\<lceil>1 / \<bar>x\<bar>\<rceil> - 1))"

definition round_double :: "real \<Rightarrow> real" where
  "round_double x =
     (if x = 0 then 0
      else (let e = max (binade x) (- 1022)
            in if 52 \<le> e
               then of_int (round_half_even (x / 2 ^ nat (e - 52))) * 2 ^ nat (e - 52)
               else of_int (round_half_even (x * 2 ^ nat (52 - e))) / 2 ^ nat (52 - e)))"

datatype pyfloat = Finite real | PlusInf | MinusInf

definition to_float :: "real \<Rightarrow> pyfloat" where
  "to_float x =
     (let r = round_double x
      in if 2 ^ 1024 \<le> r then PlusInf else if r \<le> - (2 ^ 1024) then MinusInf else Finite r)"

text \<open>\<open>d > t\<close> and \<open>d < t\<close> for a float \<open>d\<close> and a finite \<open>t\<close>.\<close>

fun float_gt :: "pyfloat \<Rightarrow> real \<Rightarrow> bool" where
  "float_gt (Finite x) t = (t < x)"
| "float_gt PlusInf t = True"
| "float_gt MinusInf t = False"

fun float_lt :: "pyfloat \<Rightarrow> real \<Rightarrow> bool" where
  "float_lt (Finite x) t = (x < t)"
| "float_lt PlusInf t = False"
| "float_lt MinusInf t = True"

fun fmt_float :: "nat \<Rightarrow> pyfloat \<Rightarrow> string" where
  "fmt_float d (Finite x) = fmt_fixed d x"
| "fmt_float d PlusInf = ''inf''"
| "fmt_float d MinusInf = ''-inf''"

section \<open>Ledger records and shipment records (models/shipment.py)\<close>

record SAPPDOData =
  sap_pdo_number :: string
  sap_brands :: "string list"
  sap_currency :: string
  sap_total_value :: real
  sap_country_splits :: "(string \<times> real) list"
  sap_source_file :: string
  sap_sheet_name :: string
  sap_row_count :: int

text \<open>\<open>sum(d.values())\<close>\<close>

definition sum_values :: "(string \<times> real) list \<Rightarrow> real" where
  "sum_values d = sum_list (map snd d)"


record InboundShipment =
  in_reference :: string
  in_etd_date :: "date option"
  in_tracking_or_awb :: "string option"
  in_incoterms :: "string option"
  in_mode :: TransportMode
  in_flight_vessel :: "string option"
  in_origin_country :: "string option"
  in_destination_country :: string
  in_brands :: "string list"
  in_description :: "string option"
  in_currency :: "string option"
  in_total_value :: "real option"
  in_country_splits :: "(string \<times> real) list"
  in_source_files :: "string list"
  in_extraction_confidence :: ExtractionConfidence
  in_validation_issues :: "ValidationIssue list"
  in_user_modified_fields :: "string list"

text \<open>Truthiness of an \<open>Optional[float]\<close>: \<open>None\<close> and \<open>0.0\<close> are false.\<close>

fun truthy_num :: "real option \<Rightarrow> bool" where
  "truthy_num None = False"
| "truthy_num (Some v) = (v \<noteq> 0)"

definition inbound_issues :: "InboundShipment \<Rightarrow> ValidationIssue list" where
  "inbound_issues s =
     (if \<not> truthy (in_tracking_or_awb s)
      then [\<lparr> vi_severity = WARNING, vi_field = ''tracking_or_awb'',
               vi_message = ''Missing tracking number or AWB'',
               vi_suggestion = Some ''Check shipping label or air waybill'' \<rparr>]
      else [])
   @ (if in_etd_date s = None
      then [\<lparr> vi_severity = WARNING, vi_field = ''etd_date'',
               vi_message = ''Missing ship date'',
               vi_suggestion = Some ''Check shipping label date field'' \<rparr>]
      else [])
   @ (if in_mode s = COURIER then
        (if truthy (in_flight_vessel s)
         then [\<lparr> vi_severity = INFO, vi_field = ''flight_vessel'',
                  vi_message = ''COURIER mode typically doesn't have flight info'',
                  vi_suggestion = Some ''Verify mode is correct'' \<rparr>]
         else [])
      @ (if truthy (in_tracking_or_awb s) then
           (let digit_count = length (filter py_isdigit (the (in_tracking_or_awb s)))
            in if digit_count < 10
               then [\<lparr> vi_severity = WARNING, vi_field = ''tracking_or_awb'',
                        vi_message = ''Tracking number has only '' @ str_nat digit_count
                                     @ '' digits (expected 12+)'',
                        vi_suggestion =
                          Some ''Verify this is the tracking number, not a reference code'' \<rparr>]
               else [])
         else [])
      else if in_mode s = AIR then
        (if \<not> truthy (in_flight_vessel s)
         then [\<lparr> vi_severity = WARNING, vi_field = ''flight_vessel'',
                  vi_message = ''AIR mode typically should have flight number'',
                  vi_suggestion = Some ''Check air waybill for flight info'' \<rparr>]
         else [])
      else [])
   @ (if in_country_splits s \<noteq> [] \<and> truthy_num (in_total_value s) then
        (let splits_sum = sum_values (in_country_splits s)
         in if \<bar>splits_sum - the (in_total_value s)\<bar> > 0.01
            then [\<lparr> vi_severity = ERROR, vi_field = ''country_splits'',
                     vi_message = ''Country splits ('' @ fmt_fixed 2 splits_sum
                                  @ '') don't match total (''
                                  @ fmt_fixed 2 (the (in_total_value s)) @ '')'',
                     vi_suggestion = Some ''Verify SAP data or manually adjust splits'' \<rparr>]
            else [])
      else [])"

text \<open>
  \<open>InboundShipment.validate\<close> returns the list and stores it on the record
  (\<open>self.validation_issues = issues\<close>): the model returns the list and the record
  after the call.
\<close>

definition InboundShipment_validate ::
  "InboundShipment \<Rightarrow> ValidationIssue list \<times> InboundShipment" where
  "InboundShipment_validate s =
     (let issues = inbound_issues s in (issues, s\<lparr>in_validation_issues := issues\<rparr>))"

definition InboundShipment_has_errors :: "InboundShipment \<Rightarrow> bool" where
  "InboundShipment_has_errors s = (\<exists>i \<in> set (in_validation_issues s). vi_severity i = ERROR)"

record OutboundShipment =
  out_invoice_number :: string
  out_date :: "date option"
  out_flight_vehicle :: "string option"
  out_mode :: TransportMode
  out_destination :: "string option"
  out_description :: "string option"
  out_currency :: "string option"
  out_value :: "real option"
  out_origin :: string
  out_fcl_lcl :: string
  out_awb_file :: "string option"
  out_invoice_file :: "string option"
  out_extraction_confidence :: ExtractionConfidence
  out_validation_issues :: "ValidationIssue list"

definition outbound_issues :: "OutboundShipment \<Rightarrow> ValidationIssue list" where
  "outbound_issues s =
     (if out_invoice_number s = []
      then [\<lparr> vi_severity = ERROR, vi_field = ''invoice_number'',
               vi_message = ''Missing invoice number'',
               vi_suggestion = Some ''Check invoice document'' \<rparr>]
      else [])
   @ (if \<not> truthy (out_currency s)
      then [\<lparr> vi_severity = WARNING, vi_field = ''currency'',
               vi_message = ''Missing currency'',
               vi_suggestion = Some ''Check invoice for currency'' \<rparr>]
      else [])
   @ (if (case out_value s of None \<Rightarrow> True | Some v \<Rightarrow> v = 0 \<or> v \<le> 0)
      then [\<lparr> vi_severity = WARNING, vi_field = ''value'',
               vi_message = ''Missing or invalid value'',
               vi_suggestion = Some ''Check invoice total'' \<rparr>]
      else [])"

definition OutboundShipment_validate ::
  "OutboundShipment \<Rightarrow> ValidationIssue list \<times> OutboundShipment" where
  "OutboundShipment_validate s =
     (let issues = outbound_issues s in (issues, s\<lparr>out_validation_issues := issues\<rparr>))"

section \<open>Identifier matching (parsers/sap\_parser.py)\<close>

text \<open>
  The ledger is the dictionary \<open>pdo_data\<close>, from sheet name to ledger record, in
  insertion order. \<open>s[-5:]\<close> is the string's last five characters (the whole string
  when it is shorter).
\<close>

type_synonym ledger = "(string \<times> SAPPDOData) list"

definition last5 :: "string \<Rightarrow> string" where
  "last5 s = drop (length s - 5) s"

text \<open>
  The inner loop of \<open>match_pdo_to_filename\<close> for one candidate \<open>pdo_num\<close>: the
  sheets are visited in order, and at each sheet the three methods are tried; the
  loop stops at the first sheet where one of them succeeds.
\<close>

fun match_one :: "string \<Rightarrow> ledger \<Rightarrow> SAPPDOData option" where
  "match_one pdo_num [] = None"
| "match_one pdo_num ((sheet_name, data) # rest) =
     (if sap_pdo_number data = pdo_num then Some data
      else if contains pdo_num sheet_name then Some data
      else if length pdo_num \<ge> 5 \<and> length (sap_pdo_number data) \<ge> 5
              \<and> last5 pdo_num = last5 (sap_pdo_number data) then Some data
      else match_one pdo_num rest)"

fun match_loop :: "string list \<Rightarrow> ledger \<Rightarrow> (string \<times> SAPPDOData) list" where
  "match_loop [] pdo_data = []"
| "match_loop (pdo_num # rest) pdo_data =
     (case match_one pdo_num pdo_data of
        Some data \<Rightarrow> (pdo_num, data) # match_loop rest pdo_data
      | None \<Rightarrow> match_loop rest pdo_data)"

text \<open>
  \<open>extract_pdo_numbers\<close> (utils/helpers.py) returns \<open>list(set(...))\<close> of the
  identifiers found by regular expressions in the file name; the list it returns is
  the parameter \<open>pdo_numbers\<close>.
\<close>

definition match_pdo_to_filename ::
  "string list \<Rightarrow> ledger \<Rightarrow> (string \<times> SAPPDOData) list" where
  "match_pdo_to_filename pdo_numbers pdo_data =
     (if pdo_numbers = [] then []
      else if pdo_data = [] then []
      else match_loop pdo_numbers pdo_data)"

section \<open>Reconciliation (reconciliation.py)\<close>

datatype ReconciliationType =
    VALUE_MISMATCH | CURRENCY_MISMATCH | COUNTRY_SPLIT_MISMATCH
  | MISSING_IN_SAP | MISSING_IN_DOCUMENT | BRAND_MISMATCH

text \<open>The values stored in the \<open>Any\<close>-typed fields of an issue.\<close>

datatype any_value = NoValue | StrValue string | NumValue real

record ReconciliationIssue =
  ri_issue_type :: ReconciliationType
  ri_severity :: ValidationSeverity
  ri_field :: string
  ri_sap_value :: any_value
  ri_document_value :: any_value
  ri_message :: string
  ri_suggestion :: string
  ri_auto_resolvable :: bool

record ReconciliationResult =
  rr_reference :: string
  rr_matched_pdo :: "string option"
  rr_issues :: "ReconciliationIssue list"
  rr_sap_used :: bool

record ReconciliationEngine =
  eng_tolerance :: real
  eng_auto_apply :: bool

definition ReconciliationEngine_init :: ReconciliationEngine where
  "ReconciliationEngine_init = \<lparr> eng_tolerance = 5.0, eng_auto_apply = True \<rparr>"

text \<open>
  \<open>re.findall(r'(\d{7})', reference)\<close>: the non-overlapping runs of seven digits,
  scanning from the left.
\<close>

function findall_7digits :: "string \<Rightarrow> string list" where
  "findall_7digits s =
     (if length s < 7 then []
      else if list_all is_digit (take 7 s) then take 7 s # findall_7digits (drop 7 s)
      else findall_7digits (tl s))"
  by pat_completeness auto
termination
  by (relation "measure length") (auto simp: less_Suc_eq_le intro: Suc_le_lessD)

declare findall_7digits.simps [simp del]

fun find_in_sheets :: "string \<Rightarrow> ledger \<Rightarrow> SAPPDOData option" where
  "find_in_sheets pdo_num [] = None"
| "find_in_sheets pdo_num ((sheet_name, data) # rest) =
     (if sap_pdo_number data = pdo_num then Some data
      else if contains pdo_num sheet_name then Some data
      else find_in_sheets pdo_num rest)"

fun find_first_match :: "string list \<Rightarrow> ledger \<Rightarrow> SAPPDOData option" where
  "find_first_match [] sap_data = None"
| "find_first_match (pdo_num # rest) sap_data =
     (case find_in_sheets pdo_num sap_data of
        Some data \<Rightarrow> Some data
      | None \<Rightarrow> find_first_match rest sap_data)"

definition find_matching_sap :: "string \<Rightarrow> ledger \<Rightarrow> SAPPDOData option" where
  "find_matching_sap reference sap_data = find_first_match (findall_7digits reference) sap_data"

text \<open>The three stages of \<open>reconcile_inbound\<close> after a ledger record is matched.\<close>

text \<open>
  \<open>abs(doc - sap) / sap * 100\<close> on floats: the subtraction, the division and the
  multiplication are each rounded; \<open>abs\<close> is exact. The guard before it excludes a
  zero \<open>sap\<close>. An infinite difference stays infinite, with the sign of \<open>sap\<close> after
  the division.
\<close>

definition diff_pct :: "real \<Rightarrow> real \<Rightarrow> pyfloat" where
  "diff_pct doc_value sap_value =
     (case to_float (doc_value - sap_value) of
        Finite d \<Rightarrow>
          (case to_float (\<bar>d\<bar> / sap_value) of
             Finite q \<Rightarrow> to_float (q * 100)
           | PlusInf \<Rightarrow> PlusInf
           | MinusInf \<Rightarrow> MinusInf)
      | _ \<Rightarrow> (if 0 < sap_value then PlusInf else MinusInf))"

definition check_currency ::
  "bool \<Rightarrow> SAPPDOData \<Rightarrow> InboundShipment \<Rightarrow> ReconciliationIssue list \<times> InboundShipment" where
  "check_currency auto_apply m s =
     (if truthy (in_currency s) \<and> sap_currency m \<noteq> [] \<and> in_currency s \<noteq> Some (sap_currency m)
      then ([\<lparr> ri_issue_type = CURRENCY_MISMATCH, ri_severity = WARNING,
               ri_field = ''currency'', ri_sap_value = StrValue (sap_currency m),
               ri_document_value = StrValue (the (in_currency s)),
               ri_message = ''Currency mismatch: SAP='' @ sap_currency m @ '', Doc=''
                            @ the (in_currency s),
               ri_suggestion = ''SAP currency will be used'',
               ri_auto_resolvable = True \<rparr>],
            if auto_apply then s\<lparr>in_currency := Some (sap_currency m)\<rparr> else s)
      else ([], s))"

definition check_value ::
  "real \<Rightarrow> bool \<Rightarrow> SAPPDOData \<Rightarrow> InboundShipment
     \<Rightarrow> ReconciliationIssue list \<times> InboundShipment" where
  "check_value tolerance auto_apply m s =
     (if truthy_num (in_total_value s) \<and> sap_total_value m \<noteq> 0 then
        (let d = diff_pct (the (in_total_value s)) (sap_total_value m)
         in if float_gt d tolerance
            then ([\<lparr> ri_issue_type = VALUE_MISMATCH,
                     ri_severity = (if float_lt d 10 then INFO else WARNING),
                     ri_field = ''total_value'',
                     ri_sap_value = NumValue (sap_total_value m),
                     ri_document_value = NumValue (the (in_total_value s)),
                     ri_message = ''Value differs by '' @ fmt_float 1 d @ ''%: SAP=''
                                  @ fmt_fixed 2 (sap_total_value m) @ '', Doc=''
                                  @ fmt_fixed 2 (the (in_total_value s)),
                     ri_suggestion = ''SAP value will be used (source of truth)'',
                     ri_auto_resolvable = True \<rparr>],
                  if auto_apply then s\<lparr>in_total_value := Some (sap_total_value m)\<rparr> else s)
            else ([], s))
      else ([], s))"

definition apply_sap :: "bool \<Rightarrow> SAPPDOData \<Rightarrow> InboundShipment \<Rightarrow> InboundShipment" where
  "apply_sap auto_apply m s =
     (if auto_apply then
        (let s1 = s\<lparr>in_currency := Some (sap_currency m)\<rparr>;
             s2 = s1\<lparr>in_total_value := Some (sap_total_value m)\<rparr>;
             s3 = (if sap_brands m \<noteq> [] then s2\<lparr>in_brands := sap_brands m\<rparr> else s2);
             s4 = (if sap_country_splits m \<noteq> []
                   then s3\<lparr>in_country_splits := sap_country_splits m\<rparr> else s3)
         in s4)
      else s)"

text \<open>
  \<open>reconcile_inbound\<close> mutates the shipment: the model returns the result together
  with the shipment after the call. The argument \<open>auto_apply\<close> is \<open>None\<close> when the
  caller leaves it out.
\<close>

definition reconcile_inbound ::
  "ReconciliationEngine \<Rightarrow> InboundShipment \<Rightarrow> ledger \<Rightarrow> bool option
     \<Rightarrow> ReconciliationResult \<times> InboundShipment" where
  "reconcile_inbound eng shipment sap_data auto_apply_arg =
     (let auto_apply = (case auto_apply_arg of None \<Rightarrow> eng_auto_apply eng | Some b \<Rightarrow> b)
      in case find_matching_sap (in_reference shipment) sap_data of
           None \<Rightarrow>
             (\<lparr> rr_reference = in_reference shipment, rr_matched_pdo = None,
                rr_issues =
                  [\<lparr> ri_issue_type = MISSING_IN_SAP, ri_severity = WARNING,
                     ri_field = ''reference'', ri_sap_value = NoValue,
                     ri_document_value = StrValue (in_reference shipment),
                     ri_message = ''No SAP data found for '' @ in_reference shipment,
                     ri_suggestion = ''Check if correct SAP export was uploaded'',
                     ri_auto_resolvable = False \<rparr>],
                rr_sap_used = False \<rparr>, shipment)
         | Some m \<Rightarrow>
             (let (i1, s1) = check_currency auto_apply m shipment;
                  (i2, s2) = check_value (eng_tolerance eng) auto_apply m s1;
                  s3 = apply_sap auto_apply m s2
              in (\<lparr> rr_reference = in_reference shipment,
                    rr_matched_pdo = Some (sap_pdo_number m),
                    rr_issues = i1 @ i2, rr_sap_used = True \<rparr>, s3)))"

definition value_mismatches :: "ReconciliationResult \<Rightarrow> ReconciliationIssue list" where
  "value_mismatches r = filter (\<lambda>i. ri_issue_type i = VALUE_MISMATCH) (rr_issues r)"

section \<open>Regular expressions (the fragment of \<open>re\<close> the classifier uses)\<close>

text \<open>
  A pattern is a sequence of atoms: a character class with a quantifier, or the word
  boundary \<open>\<^verbatim>\<open>\b\<close>\<close>. The classes are a literal character, \<open>\<^verbatim>\<open>\s\<close>\<close>,
  \<open>\<^verbatim>\<open>\d\<close>\<close> and the dot (any character but the newline). \<open>rx_match r prev s\<close>
  says that \<open>r\<close> matches a prefix of \<open>s\<close>, where \<open>prev\<close> is the character before
  \<open>s\<close> in the searched text (\<open>None\<close> at its start); \<open>re_search\<close> tries every
  start position, as \<open>re.search\<close> does.
\<close>

datatype rx_class = Lit char | Space | Digit | Dot

datatype rx_quant = One | Opt | Star | Plus

datatype rx_atom = At rx_class rx_quant | WordB

type_synonym regex = "rx_atom list"

fun class_ok :: "rx_class \<Rightarrow> char \<Rightarrow> bool" where
  "class_ok (Lit c) x = (x = c)"
| "class_ok Space x = is_space x"
| "class_ok Digit x = is_digit x"
| "class_ok Dot x = (x \<noteq> CHR 0x0A)"

definition at_boundary :: "char option \<Rightarrow> string \<Rightarrow> bool" where
  "at_boundary prev s =
     ((case prev of None \<Rightarrow> False | Some c \<Rightarrow> is_word c)
      \<noteq> (case s of [] \<Rightarrow> False | c # _ \<Rightarrow> is_word c))"

fun rx_match :: "regex \<Rightarrow> char option \<Rightarrow> string \<Rightarrow> bool" where
  "rx_match [] prev s = True"
| "rx_match (WordB # r) prev s = (at_boundary prev s \<and> rx_match r prev s)"
| "rx_match (At c One # r) prev [] = False"
| "rx_match (At c One # r) prev (x # xs) = (class_ok c x \<and> rx_match r (Some x) xs)"
| "rx_match (At c Opt # r) prev [] = rx_match r prev []"
| "rx_match (At c Opt # r) prev (x # xs) =
     (rx_match r prev (x # xs) \<or> (class_ok c x \<and> rx_match r (Some x) xs))"
| "rx_match (At c Star # r) prev [] = rx_match r prev []"
| "rx_match (At c Star # r) prev (x # xs) =
     (rx_match r prev (x # xs) \<or> (class_ok c x \<and> rx_match (At c Star # r) (Some x) xs))"
| "rx_match (At c Plus # r) prev [] = False"
| "rx_match (At c Plus # r) prev (x # xs) =
     (class_ok c x \<and> rx_match (At c Star # r) (Some x) xs)"

fun rx_search_from :: "regex \<Rightarrow> char option \<Rightarrow> string \<Rightarrow> bool" where
  "rx_search_from r prev [] = rx_match r prev []"
| "rx_search_from r prev (x # xs) = (rx_match r prev (x # xs) \<or> rx_search_from r (Some x) xs)"

definition re_search :: "regex \<Rightarrow> string \<Rightarrow> bool" where
  "re_search r s = rx_search_from r None s"

text \<open>The pattern's source text, which the classifier copies into its evidence list.\<close>

fun class_src :: "rx_class \<Rightarrow> string" where
  "class_src (Lit c) = [c]"
| "class_src Space = [CHR 0x5C, CHR ''s'']"
| "class_src Digit = [CHR 0x5C, CHR ''d'']"
| "class_src Dot = ''.''"

fun quant_src :: "rx_quant \<Rightarrow> string" where
  "quant_src One = []"
| "quant_src Opt = ''?''"
| "quant_src Star = ''*''"
| "quant_src Plus = ''+''"

fun atom_src :: "rx_atom \<Rightarrow> string" where
  "atom_src (At c q) = class_src c @ quant_src q"
| "atom_src WordB = [CHR 0x5C, CHR ''b'']"

definition pattern_src :: "regex \<Rightarrow> string" where
  "pattern_src r = concat (map atom_src r)"

definition lit :: "string \<Rightarrow> regex" where
  "lit s = map (\<lambda>c. At (Lit c) One) s"

text \<open>\<open>\<^verbatim>\<open>\bs\b\<close>\<close> and \<open>\<^verbatim>\<open>\bs\<close>\<close> for a literal \<open>s\<close>.\<close>

definition word :: "string \<Rightarrow> regex" where
  "word s = WordB # lit s @ [WordB]"

definition word_start :: "string \<Rightarrow> regex" where
  "word_start s = WordB # lit s"

section \<open>Product classifier (classifiers/product\_classifier.py)\<close>

datatype ProductCategory =
    MEDICAL_DEVICES | SKINCARE_PRODUCTS | ORAL_SUPPLEMENTS | PHARMACEUTICAL | CATEGORY_UNKNOWN

fun category_value :: "ProductCategory \<Rightarrow> string" where
  "category_value MEDICAL_DEVICES = ''Medical Devices''"
| "category_value SKINCARE_PRODUCTS = ''Skincare Products''"
| "category_value ORAL_SUPPLEMENTS = ''Oral Supplements''"
| "category_value PHARMACEUTICAL = ''Pharmaceutical Products''"
| "category_value CATEGORY_UNKNOWN = ''Unknown''"

record ClassificationResult =
  cr_categories :: "ProductCategory list"
  cr_confidence :: real
  cr_reasoning :: string
  cr_matched_patterns :: "string list"

text \<open>
  The rule tables are attributes of the classifier object and can be extended at run
  time (\<open>add_brand\<close>, \<open>add_keyword_pattern\<close>), so \<open>classify\<close> takes them as its
  first argument. The dictionaries are association lists in insertion order.
\<close>

record ProductClassifier =
  verbatim_labels :: "(string \<times> ProductCategory list) list"
  brand_categories :: "(string \<times> ProductCategory) list"
  keyword_patterns :: "(ProductCategory \<times> regex list) list"
  compound_rules :: "(regex \<times> ProductCategory list) list"

definition ProductClassifier_init :: ProductClassifier where
  "ProductClassifier_init =
     \<lparr> verbatim_labels =
         [(''skincare products & oral supplements'', [SKINCARE_PRODUCTS, ORAL_SUPPLEMENTS]),
          (''skincare products and oral supplements'', [SKINCARE_PRODUCTS, ORAL_SUPPLEMENTS]),
          (''oral supplements & skincare products'', [ORAL_SUPPLEMENTS, SKINCARE_PRODUCTS]),
          (''skincare products'', [SKINCARE_PRODUCTS]),
          (''oral supplements'', [ORAL_SUPPLEMENTS]),
          (''oral supplement'', [ORAL_SUPPLEMENTS]),
          (''medical devices'', [MEDICAL_DEVICES]),
          (''medical device'', [MEDICAL_DEVICES]),
          (''medical devices & skincare products'', [MEDICAL_DEVICES, SKINCARE_PRODUCTS]),
          (''skincare products & medical devices'', [SKINCARE_PRODUCTS, MEDICAL_DEVICES]),
          (''pharmaceutical products'', [PHARMACEUTICAL])],
       brand_categories =
         [(''profhilo'', MEDICAL_DEVICES), (''viscoderm'', MEDICAL_DEVICES),
          (''nucleofill'', MEDICAL_DEVICES), (''aliaxin'', MEDICAL_DEVICES),
          (''belotero'', MEDICAL_DEVICES), (''radiesse'', MEDICAL_DEVICES),
          (''juvederm'', MEDICAL_DEVICES), (''restylane'', MEDICAL_DEVICES),
          (''teosyal'', MEDICAL_DEVICES), (''sculptra'', MEDICAL_DEVICES),
          (''ellanse'', MEDICAL_DEVICES), (''sunekos'', MEDICAL_DEVICES),
          (''jalupro'', MEDICAL_DEVICES), (''lumi eyes'', MEDICAL_DEVICES),
          (''ejal'', MEDICAL_DEVICES), (''xela rederm'', MEDICAL_DEVICES),
          (''haenkenium'', SKINCARE_PRODUCTS), (''heliocare'', SKINCARE_PRODUCTS),
          (''endocare'', SKINCARE_PRODUCTS), (''neostrata'', SKINCARE_PRODUCTS),
          (''isdin'', SKINCARE_PRODUCTS), (''skinceuticals'', SKINCARE_PRODUCTS),
          (''obagi'', SKINCARE_PRODUCTS), (''zo skin health'', SKINCARE_PRODUCTS),
          (''dermaceutic'', SKINCARE_PRODUCTS), (''biopelle'', SKINCARE_PRODUCTS),
          (''imedeen'', ORAL_SUPPLEMENTS), (''perfectil'', ORAL_SUPPLEMENTS),
          (''nutrafol'', ORAL_SUPPLEMENTS), (''viviscal'', ORAL_SUPPLEMENTS),
          (''collagen supplements'', ORAL_SUPPLEMENTS)],
       keyword_patterns =
         [(MEDICAL_DEVICES,
            [word ''syringe'', word ''injectable'', word ''filler'', word ''implant'',
             [WordB, At Digit Plus] @ lit ''mg'' @ [WordB, At Dot Star, WordB] @ lit ''ml'' @ [WordB],
             word ''hyaluronic acid'', word_start ''biorevital'', word ''skin booster'',
             word ''mesotherapy'', word ''peel'', word ''laser'', word ''device'',
             word ''sterile'', word ''medical'']),
          (SKINCARE_PRODUCTS,
            [word ''cream'', word ''serum'', word ''lotion'', word_start ''moisturiz'',
             word ''cleanser'', word ''toner'', word ''mask'', word ''sunscreen'', word ''spf'',
             WordB # lit ''anti'' @ [At Dot Opt] @ lit ''aging'' @ [WordB],
             word ''skincare'',
             WordB # lit ''skin'' @ [At Space Star] @ lit ''care'' @ [WordB],
             word ''topical'', word ''cosmetic'']),
          (ORAL_SUPPLEMENTS,
            [word ''supplement'', word ''capsule'', word ''tablet'', word ''vitamin'',
             word ''collagen'' @ [At Dot Star] @ word ''oral'',
             word ''oral'' @ [At Dot Star] @ word ''collagen'',
             word ''nutrition'', word ''dietary'', word ''pill'', word ''softgel'']),
          (PHARMACEUTICAL,
            [word ''drug'', word ''pharmaceutical'', word ''medicine'', word ''prescription''])],
       compound_rules =
         [(lit ''profhilo'' @ [At Space Plus] @ lit ''haenkenium'' @ [At Space Plus] @ lit ''cream'',
             [SKINCARE_PRODUCTS]),
          (lit ''profhilo'' @ [At Dot Star] @ lit ''syringe'', [MEDICAL_DEVICES])] \<rparr>"

text \<open>\<open>str.lower\<close>, \<open>str.strip\<close> and \<open>" | ".join\<close>.\<close>

definition lower_char :: "char \<Rightarrow> char" where
  "lower_char c =
     (if (CHR ''A'' \<le> c \<and> c \<le> CHR ''Z'') \<or> (CHR 0xC0 \<le> c \<and> c \<le> CHR 0xD6)
         \<or> (CHR 0xD8 \<le> c \<and> c \<le> CHR 0xDE)
      then char_of (of_char c + (32::nat)) else c)"

definition py_lower :: "string \<Rightarrow> string" where
  "py_lower s = map lower_char s"

definition py_strip :: "string \<Rightarrow> string" where
  "py_strip s = rev (dropWhile is_space (rev (dropWhile is_space s)))"

fun join_bar :: "string list \<Rightarrow> string" where
  "join_bar [] = []"
| "join_bar [x] = x"
| "join_bar (x # y # ys) = x @ '' | '' @ join_bar (y # ys)"

text \<open>\<open>sorted(list(matched_categories), key=lambda x: x.value)\<close>\<close>

definition sorted_categories :: "ProductCategory list \<Rightarrow> ProductCategory list" where
  "sorted_categories cs = sort_key category_value (remdups cs)"

text \<open>
  \<open>_calculate_confidence\<close>: the float arithmetic on the three counts, each
  multiplication and addition rounded, and the counting of the evidence by prefix.
\<close>

definition confidence_of_counts :: "nat \<Rightarrow> nat \<Rightarrow> nat \<Rightarrow> real" where
  "confidence_of_counts brand_matches keyword_matches compound_matches =
     (let c1 = round_double (0.5 + round_double (real brand_matches * round_double 0.2));
          c2 = round_double (c1 + round_double (real keyword_matches * round_double 0.1));
          c3 = round_double (c2 + round_double (real compound_matches * 0.25))
      in min c3 1.0)"

definition calculate_confidence :: "string list \<Rightarrow> real" where
  "calculate_confidence matched_patterns =
     (if matched_patterns = [] then round_double 0.2
      else confidence_of_counts
             (length (filter (starts_with ''brand:'') matched_patterns))
             (length (filter (starts_with ''keyword:'') matched_patterns))
             (length (filter (starts_with ''compound:'') matched_patterns)))"

text \<open>The matches of each tier on the lower-cased, stripped description, in table order.\<close>

definition verbatim_hits :: "ProductClassifier \<Rightarrow> string \<Rightarrow> (string \<times> ProductCategory list) list" where
  "verbatim_hits clf d = filter (\<lambda>(label, cats). contains label d) (verbatim_labels clf)"

definition compound_hits :: "ProductClassifier \<Rightarrow> string \<Rightarrow> (regex \<times> ProductCategory list) list" where
  "compound_hits clf d = filter (\<lambda>(pattern, cats). re_search pattern d) (compound_rules clf)"

definition brand_hits :: "ProductClassifier \<Rightarrow> string \<Rightarrow> (string \<times> ProductCategory) list" where
  "brand_hits clf d = filter (\<lambda>(brand, cat). contains brand d) (brand_categories clf)"

text \<open>Per category the first pattern that matches, if any (the \<open>break\<close>).\<close>

definition keyword_hits :: "ProductClassifier \<Rightarrow> string \<Rightarrow> (ProductCategory \<times> regex) list" where
  "keyword_hits clf d =
     concat (map (\<lambda>(cat, patterns).
                    case find (\<lambda>p. re_search p d) patterns of
                      None \<Rightarrow> [] | Some p \<Rightarrow> [(cat, p)])
                 (keyword_patterns clf))"

definition has_medical_device_keyword :: "string list \<Rightarrow> bool" where
  "has_medical_device_keyword matched_patterns =
     ((\<exists>p \<in> set matched_patterns. starts_with ''keyword:'' p \<and> contains ''syringe'' (py_lower p))
      \<or> (\<exists>p \<in> set matched_patterns. starts_with ''keyword:'' p \<and> contains ''injectable'' (py_lower p)))"

definition classify :: "ProductClassifier \<Rightarrow> string \<Rightarrow> ClassificationResult" where
  "classify clf description =
     (if description = [] then
        \<lparr> cr_categories = [CATEGORY_UNKNOWN], cr_confidence = 0.0,
          cr_reasoning = ''No description provided'', cr_matched_patterns = [] \<rparr>
      else
        (let desc_lower = py_strip (py_lower description);
             vh = verbatim_hits clf desc_lower;
             cats0 = concat (map snd vh);
             pats0 = map (\<lambda>(label, cats). ''verbatim:'' @ label) vh;
             why0 = map (\<lambda>(label, cats). ''Verbatim label match: '' @ [CHR 0x27] @ label @ [CHR 0x27]) vh
         in if cats0 \<noteq> [] then
              \<lparr> cr_categories = sorted_categories cats0, cr_confidence = round_double 0.95,
                cr_reasoning = join_bar why0, cr_matched_patterns = pats0 \<rparr>
            else
              (let ch = compound_hits clf desc_lower;
                   bh = brand_hits clf desc_lower;
                   kh = keyword_hits clf desc_lower;
                   cats = cats0 @ concat (map snd ch) @ map snd bh @ map fst kh;
                   pats = pats0
                     @ map (\<lambda>(pattern, cats). ''compound:'' @ pattern_src pattern) ch
                     @ map (\<lambda>(brand, cat). ''brand:'' @ brand) bh
                     @ map (\<lambda>(cat, pattern). ''keyword:'' @ pattern_src pattern) kh;
                   why = why0
                     @ map (\<lambda>(pattern, cats). ''Matched compound rule: '' @ pattern_src pattern) ch
                     @ map (\<lambda>(brand, cat). ''Brand '' @ [CHR 0x27] @ brand @ [CHR 0x27] @ '' -> ''
                                              @ category_value cat) bh
                     @ map (\<lambda>(cat, pattern). ''Keyword '' @ [CHR 0x27] @ pattern_src pattern
                                                @ [CHR 0x27] @ '' -> '' @ category_value cat) kh;
                   drop_md = (MEDICAL_DEVICES \<in> set cats \<and> SKINCARE_PRODUCTS \<in> set cats
                              \<and> contains ''haenkenium cream'' desc_lower
                              \<and> \<not> has_medical_device_keyword pats);
                   cats' = (if drop_md then filter (\<lambda>c. c \<noteq> MEDICAL_DEVICES) cats else cats);
                   why' = (if drop_md
                           then why @ [''Haenkenium Cream is skincare, not medical device'']
                           else why)
               in if cats' = [] then
                    \<lparr> cr_categories = [CATEGORY_UNKNOWN], cr_confidence = round_double 0.2,
                      cr_reasoning = ''No matching patterns found'', cr_matched_patterns = pats \<rparr>
                  else
                    \<lparr> cr_categories = sorted_categories cats',
                      cr_confidence = calculate_confidence pats,
                      cr_reasoning = join_bar why', cr_matched_patterns = pats \<rparr>)))"

section \<open>Response parsing (extractors/vision\_extractor.py)\<close>

text \<open>
  The values \<open>json.loads\<close> produces, as Python objects. The \<open>ExtractionResult\<close>
  dataclass does not check its annotations when it is constructed: the parser stores
  what \<open>data.get(...)\<close> returned, whatever its type. \<open>UncheckedResult\<close> is the
  \<open>ExtractionResult\<close> object as the parser builds it, the fields it copies from the
  JSON object being Python values. (Leading underscores of method names are dropped.)
\<close>

datatype pyval =
    PNone | PBool bool | PInt int | PFloat real | PStr string
  | PList "pyval list" | PDict "(string \<times> pyval) list"

type_synonym pydict = "(string \<times> pyval) list"

text \<open>Exceptions, with the text \<open>str(e)\<close> gives.\<close>

datatype pyexn =
    TypeError string | AttributeError string | ValueError string | RecursionError string

fun exn_text :: "pyexn \<Rightarrow> string" where
  "exn_text (TypeError m) = m"
| "exn_text (AttributeError m) = m"
| "exn_text (ValueError m) = m"
| "exn_text (RecursionError m) = m"

text \<open>
  What \<open>json.loads\<close> does on a text that starts with an opening brace: it returns
  a dictionary, or raises \<open>JSONDecodeError\<close> (with its text), or raises another
  exception, such as \<open>RecursionError\<close> on deeply nested brackets.
\<close>

datatype json_outcome = JsonObject "(string \<times> pyval) list" | JSONDecodeError string | JsonRaised pyexn

fun py_truthy :: "pyval \<Rightarrow> bool" where
  "py_truthy PNone = False"
| "py_truthy (PBool b) = b"
| "py_truthy (PInt i) = (i \<noteq> 0)"
| "py_truthy (PFloat x) = (x \<noteq> 0)"
| "py_truthy (PStr s) = (s \<noteq> [])"
| "py_truthy (PList xs) = (xs \<noteq> [])"
| "py_truthy (PDict kvs) = (kvs \<noteq> [])"

fun type_name :: "pyval \<Rightarrow> string" where
  "type_name PNone = ''NoneType''"
| "type_name (PBool b) = ''bool''"
| "type_name (PInt i) = ''int''"
| "type_name (PFloat x) = ''float''"
| "type_name (PStr s) = ''str''"
| "type_name (PList xs) = ''list''"
| "type_name (PDict kvs) = ''dict''"

text \<open>\<open>data.get(key)\<close> and \<open>data.get(key, default)\<close>.\<close>

definition dict_get :: "pydict \<Rightarrow> string \<Rightarrow> pyval" where
  "dict_get data key = (case map_of data key of None \<Rightarrow> PNone | Some v \<Rightarrow> v)"

definition dict_get_default :: "pydict \<Rightarrow> string \<Rightarrow> pyval \<Rightarrow> pyval" where
  "dict_get_default data key dflt = (case map_of data key of None \<Rightarrow> dflt | Some v \<Rightarrow> v)"

text \<open>\<open>v + s\<close> for a string \<open>s\<close>: concatenation when \<open>v\<close> is a string, a TypeError otherwise.\<close>

definition py_add_str :: "pyval \<Rightarrow> string \<Rightarrow> pyexn + string" where
  "py_add_str v s =
     (case v of
        PStr t \<Rightarrow> Inr (t @ s)
      | PList xs \<Rightarrow>
          Inl (TypeError (''can only concatenate list (not '' @ [CHR 0x22] @ ''str''
                          @ [CHR 0x22] @ '') to list''))
      | _ \<Rightarrow>
          Inl (TypeError (''unsupported operand type(s) for +: '' @ [CHR 0x27] @ type_name v
                          @ [CHR 0x27] @ '' and '' @ [CHR 0x27] @ ''str'' @ [CHR 0x27])))"

record UncheckedResult =
  ur_document_type :: DocumentType
  ur_confidence :: ExtractionConfidence
  ur_tracking_or_awb :: pyval
  ur_ship_date :: "date option"
  ur_mode :: "TransportMode option"
  ur_flight_numbers :: pyval
  ur_origin_country :: pyval
  ur_destination_country :: pyval
  ur_incoterms :: pyval
  ur_currency :: pyval
  ur_total_value :: pyval
  ur_carrier :: pyval
  ur_vessel_info :: pyval
  ur_container_number :: pyval
  ur_brand_codes :: pyval
  ur_page_number :: int
  ur_raw_response :: string
  ur_notes :: pyval
  ur_extraction_errors :: "string list"

definition UncheckedResult_init :: "DocumentType \<Rightarrow> ExtractionConfidence \<Rightarrow> UncheckedResult" where
  "UncheckedResult_init dt c =
     \<lparr> ur_document_type = dt, ur_confidence = c, ur_tracking_or_awb = PNone,
       ur_ship_date = None, ur_mode = None, ur_flight_numbers = PList [],
       ur_origin_country = PNone, ur_destination_country = PNone, ur_incoterms = PNone,
       ur_currency = PNone, ur_total_value = PNone, ur_carrier = PNone,
       ur_vessel_info = PNone, ur_container_number = PNone, ur_brand_codes = PList [],
       ur_page_number = 0, ur_raw_response = [], ur_notes = PStr [],
       ur_extraction_errors = [] \<rparr>"

text \<open>
  What the parser relies on and this theory does not define:
  \<^item> \<open>json_loads\<close>: \<open>json.loads\<close> on a text that starts with an opening brace;
  \<^item> \<open>date_cascade\<close>: the sequence of date formats \<open>parse_date_flexible\<close> tries on
    the stripped text, with \<open>None\<close> when all fail;
  \<^item> \<open>py_repr\<close>: the text Python prints for a float, a list or a dictionary;
  \<^item> \<open>parse_inbound_response\<close> and \<open>parse_outbound_awb_response\<close>: the routines
    for the other two prompt types, to which \<open>parse_response\<close> dispatches; they may
    return a result or raise.
\<close>

record parse_env =
  json_loads :: "string \<Rightarrow> json_outcome"
  date_cascade :: "string \<Rightarrow> date option"
  py_repr :: "pyval \<Rightarrow> string"
  parse_inbound_response ::
    "pydict \<Rightarrow> string \<Rightarrow> int \<Rightarrow> ExtractionConfidence \<Rightarrow> string list \<Rightarrow> pyexn + UncheckedResult"
  parse_outbound_awb_response ::
    "pydict \<Rightarrow> string \<Rightarrow> int \<Rightarrow> ExtractionConfidence \<Rightarrow> string list \<Rightarrow> pyexn + UncheckedResult"

text \<open>\<open>str(v)\<close>, which is also what an f-string inserts.\<close>

definition py_str :: "parse_env \<Rightarrow> pyval \<Rightarrow> string" where
  "py_str env v =
     (case v of
        PStr s \<Rightarrow> s
      | PNone \<Rightarrow> ''None''
      | PBool b \<Rightarrow> (if b then ''True'' else ''False'')
      | PInt i \<Rightarrow> (if i < 0 then ''-'' else []) @ str_nat (nat \<bar>i\<bar>)
      | _ \<Rightarrow> py_repr env v)"

definition parse_date_flexible :: "parse_env \<Rightarrow> pyval \<Rightarrow> date option" where
  "parse_date_flexible env date_str =
     (if \<not> py_truthy date_str then None
      else date_cascade env (py_strip (py_str env date_str)))"

text \<open>
  \<open>float(s)\<close> for a string of digits and dots, which is what is left after
  \<open>re.sub(r'[^\d.]', '', total_value)\<close>: a \<open>ValueError\<close> (here \<open>None\<close>) when there
  is no digit or more than one dot.
\<close>

definition digits_value :: "string \<Rightarrow> nat" where
  "digits_value s = foldl (\<lambda>n c. 10 * n + (of_char c - 48)) 0 s"

definition py_float :: "string \<Rightarrow> real option" where
  "py_float s =
     (let ip = takeWhile (\<lambda>c. c \<noteq> CHR ''.'') s;
          rest = dropWhile (\<lambda>c. c \<noteq> CHR ''.'') s
      in if rest = [] then (if ip = [] then None else Some (real (digits_value ip)))
         else (let fp = tl rest
               in if CHR ''.'' \<in> set fp \<or> (ip = [] \<and> fp = []) then None
                  else Some (real (digits_value ip) + real (digits_value fp) / 10 ^ length fp)))"

definition parse_outbound_invoice_response ::
  "parse_env \<Rightarrow> pydict \<Rightarrow> string \<Rightarrow> int \<Rightarrow> ExtractionConfidence \<Rightarrow> string list
     \<Rightarrow> pyexn + UncheckedResult" where
  "parse_outbound_invoice_response env data raw_response page_number confidence errors =
     (let date_str = dict_get data ''date'';
          ship_date = (if py_truthy date_str then parse_date_flexible env date_str else None);
          total_value =
            (case dict_get data ''total_value'' of
               PStr t \<Rightarrow>
                 (case py_float (filter (\<lambda>c. is_digit c \<or> c = CHR ''.'') t) of
                    Some x \<Rightarrow> PFloat x | None \<Rightarrow> PNone)
             | v \<Rightarrow> v);
          dest_city = dict_get data ''destination_city'';
          dest_country = dict_get data ''destination_country'';
          destination =
            (if py_truthy dest_city \<and> py_truthy dest_country
             then PStr (py_str env dest_city @ '', '' @ py_str env dest_country)
             else if py_truthy dest_country then dest_country
             else if py_truthy dest_city then dest_city
             else PNone)
      in case py_add_str (dict_get_default data ''notes'' (PStr []))
                ('' | Description: ''
                 @ py_str env (dict_get_default data ''description'' (PStr ''N/A''))) of
           Inl e \<Rightarrow> Inl e
         | Inr notes \<Rightarrow>
             Inr ((UncheckedResult_init COMMERCIAL_INVOICE confidence)
                    \<lparr> ur_tracking_or_awb := dict_get data ''invoice_number'',
                      ur_ship_date := ship_date,
                      ur_mode := Some AIR,
                      ur_origin_country := PStr ''SINGAPORE'',
                      ur_destination_country := destination,
                      ur_currency := dict_get data ''currency'',
                      ur_total_value := total_value,
                      ur_page_number := page_number,
                      ur_raw_response := raw_response,
                      ur_notes := PStr notes,
                      ur_extraction_errors := errors \<rparr>))"

text \<open>
  \<open>re.search(r'\{[\s\S]*\}', raw_response)\<close>: the text from the first opening
  brace to the last closing brace after it, if there is one.
\<close>

definition json_match :: "string \<Rightarrow> string option" where
  "json_match raw =
     (case dropWhile (\<lambda>c. c \<noteq> CHR ''{'') raw of
        [] \<Rightarrow> None
      | b # rest \<Rightarrow>
          (if CHR ''}'' \<in> set rest
           then Some (rev (dropWhile (\<lambda>c. c \<noteq> CHR ''}'') (rev (b # rest))))
           else None))"

text \<open>\<open>ExtractionConfidence(conf_str)\<close>, with \<open>MEDIUM\<close> on \<open>ValueError\<close>.\<close>

definition confidence_of :: "pyval \<Rightarrow> ExtractionConfidence" where
  "confidence_of v =
     (if v = PStr ''HIGH'' then HIGH else if v = PStr ''LOW'' then LOW else MEDIUM)"

definition failure_result :: "int \<Rightarrow> string \<Rightarrow> string list \<Rightarrow> UncheckedResult" where
  "failure_result page_number raw_response errors =
     (UncheckedResult_init UNKNOWN LOW)
       \<lparr> ur_page_number := page_number, ur_raw_response := raw_response,
         ur_extraction_errors := errors \<rparr>"

definition parse_response ::
  "parse_env \<Rightarrow> string \<Rightarrow> int \<Rightarrow> string \<Rightarrow> pyexn + UncheckedResult" where
  "parse_response env raw_response page_number prompt_type =
     (case json_match raw_response of
        None \<Rightarrow> Inr (failure_result page_number raw_response [''No JSON found in response''])
      | Some text \<Rightarrow>
          (case json_loads env text of
             JSONDecodeError e \<Rightarrow>
               Inr (failure_result page_number raw_response [''JSON parse error: '' @ e])
           | JsonRaised e \<Rightarrow> Inl e
           | JsonObject data \<Rightarrow>
               (let confidence = confidence_of (dict_get_default data ''confidence'' (PStr ''MEDIUM''))
                in if prompt_type = ''outbound_awb''
                   then parse_outbound_awb_response env data raw_response page_number confidence []
                   else if prompt_type = ''outbound_invoice''
                   then parse_outbound_invoice_response env data raw_response page_number
                          confidence []
                   else parse_inbound_response env data raw_response page_number confidence [])))"

text \<open>
  \<open>extract_from_image\<close> after the rate limiter: the call of the vision service
  either raises (\<open>RateLimitError\<close> or another exception, with its text) or returns the
  response text; the \<open>try\<close> block around the call and \<open>parse_response\<close> turns every
  exception into a result.
\<close>

datatype api_outcome = RateLimitError string | ApiError string | ApiText string

definition extract_from_image ::
  "parse_env \<Rightarrow> api_outcome \<Rightarrow> string \<Rightarrow> int \<Rightarrow> UncheckedResult" where
  "extract_from_image env outcome prompt_type page_number =
     (case outcome of
        ApiText raw_response \<Rightarrow>
          (case parse_response env raw_response page_number prompt_type of
             Inr result \<Rightarrow> result
           | Inl e \<Rightarrow> failure_result page_number [] [exn_text e])
      | RateLimitError e \<Rightarrow> failure_result page_number [] [''Rate limit exceeded: '' @ e]
      | ApiError e \<Rightarrow> failure_result page_number [] [e])"

section \<open>The specification's reading of the aggregate confidence\<close>

text \<open>
  The specification orders the confidence tags HIGH > MEDIUM > LOW and asks for the
  least confident tag among the pages. This definition follows those words; it is
  compared with what \<open>aggregate_inbound\<close> computes.
\<close>

definition spec_lowest_confidence :: "ExtractionConfidence list \<Rightarrow> ExtractionConfidence" where
  "spec_lowest_confidence cs =
     (if LOW \<in> set cs then LOW else if MEDIUM \<in> set cs then MEDIUM else HIGH)"

section \<open>Example inputs\<close>

definition awb_page :: "string \<Rightarrow> ExtractionResult" where
  "awb_page t = (ExtractionResult_init AIR_WAYBILL HIGH)\<lparr>er_tracking_or_awb := Some t\<rparr>"

definition page_with_confidence :: "ExtractionConfidence \<Rightarrow> ExtractionResult" where
  "page_with_confidence c = ExtractionResult_init COMMERCIAL_INVOICE c"

definition demo_ledger_record :: "string \<Rightarrow> real \<Rightarrow> SAPPDOData" where
  "demo_ledger_record n v =
     \<lparr> sap_pdo_number = n, sap_brands = [''NST''], sap_currency = ''USD'',
       sap_total_value = v, sap_country_splits = [(''SIN'', 600), (''MAL'', 400)],
       sap_source_file = ''export.xlsx'', sap_sheet_name = ''PDO'' @ n, sap_row_count = 2 \<rparr>"

definition demo_shipment :: "real option \<Rightarrow> InboundShipment" where
  "demo_shipment v =
     \<lparr> in_reference = ''PDO2500444'', in_etd_date = None, in_tracking_or_awb = None,
       in_incoterms = None, in_mode = MODE_UNKNOWN, in_flight_vessel = None,
       in_origin_country = None, in_destination_country = ''SINGAPORE'',
       in_brands = [''HLC''], in_description = None, in_currency = Some ''EUR'',
       in_total_value = v, in_country_splits = [(''VIT'', 50)], in_source_files = [],
       in_extraction_confidence = MEDIUM, in_validation_issues = [],
       in_user_modified_fields = [] \<rparr>"

definition demo_ledger :: "real \<Rightarrow> ledger" where
  "demo_ledger v = [(''PDO2500444'', demo_ledger_record ''2500444'' v)]"

definition bare_ledger_record :: SAPPDOData where
  "bare_ledger_record =
     (demo_ledger_record ''2500444'' 1000)\<lparr>sap_brands := [], sap_country_splits := []\<rparr>"


definition suffix_ledger :: ledger where
  "suffix_ledger = [(''PDO1500430'', demo_ledger_record ''1500430'' 700),
                    (''PDO2500430'', demo_ledger_record ''2500430'' 900)]"

definition notes_null_text :: string where
  "notes_null_text = ''{'' @ [CHR 0x22] @ ''notes'' @ [CHR 0x22] @ '': null}''"

definition deep_nesting_text :: string where
  "deep_nesting_text = ''{'' @ [CHR 0x22] @ ''a'' @ [CHR 0x22] @ '':'' @ replicate 2000 CHR ''['' @ ''}''"

text \<open>
  An environment for the examples: \<open>json.loads\<close> on the three texts the examples
  parse (the object with the key \<open>notes\<close> mapped to \<open>null\<close>; an opening brace
  followed by 2000 opening brackets, on which it raises \<open>RecursionError\<close>; a text
  that is not JSON); the other members are not reached by the examples.
\<close>

definition sample_env :: parse_env where
  "sample_env =
     \<lparr> json_loads =
         (\<lambda>t. if t = notes_null_text then JsonObject [(''notes'', PNone)]
              else if t = deep_nesting_text
              then JsonRaised (RecursionError
                     ''maximum recursion depth exceeded while decoding a JSON array from a unicode string'')
              else JSONDecodeError
                     ''Expecting property name enclosed in double quotes: line 1 column 2 (char 1)''),
       date_cascade = (\<lambda>t. None),
       py_repr = (\<lambda>v. []),
       parse_inbound_response =
         (\<lambda>data raw page c errors. Inr (UncheckedResult_init UNKNOWN c)),
       parse_outbound_awb_response =
         (\<lambda>data raw page c errors. Inr (UncheckedResult_init AIR_WAYBILL c)) \<rparr>"

section \<open>Double-precision rounding\<close>

text \<open>
  \<open>binade x\<close> is the exponent of the power of two at or below \<open>|x|\<close>;
  \<open>round_half_even\<close> returns a nearest integer, the even one on a tie; so
  \<open>round_double x\<close> is within half a step of \<open>x\<close>.
\<close>

lemma binade_large:
  assumes "1 \<le> \<bar>x\<bar>"
  shows "2 ^ nat (binade x) \<le> \<bar>x\<bar>" "\<bar>x\<bar> < 2 ^ nat (binade x + 1)" "0 \<le> binade x"
proof -
  let ?n = "\<lfloor>\<bar>x\<bar>\<rfloor>"
  have n: "0 < ?n" using assms by simp
  from bitlen_bounds [OF n]
  have b: "2 ^ nat (bitlen ?n - 1) \<le> ?n" "?n < 2 ^ nat (bitlen ?n)" by simp_all
  have bl: "0 < bitlen ?n" using n bitlen_eq_zero_iff [of ?n] bitlen_nonneg [of ?n] by linarith
  have e: "binade x = bitlen ?n - 1" using assms by (simp add: binade_def)
  show "0 \<le> binade x" using bl e by simp
  have "real_of_int (2 ^ nat (bitlen ?n - 1)) \<le> real_of_int ?n" using b(1) by linarith
  also have "\<dots> \<le> \<bar>x\<bar>" by simp
  finally show "2 ^ nat (binade x) \<le> \<bar>x\<bar>" by (simp add: e)
  have "?n + 1 \<le> 2 ^ nat (bitlen ?n)" using b(2) by simp
  then have "real_of_int (?n + 1) \<le> real_of_int (2 ^ nat (bitlen ?n))" by linarith
  then have s1: "real_of_int ?n + 1 \<le> 2 ^ nat (bitlen ?n)" by simp
  have fl: "\<bar>x\<bar> < real_of_int ?n + 1" by linarith
  from s1 fl have "\<bar>x\<bar> < 2 ^ nat (bitlen ?n)" by linarith
  moreover have "nat (binade x + 1) = nat (bitlen ?n)" by (simp add: e)
  ultimately show "\<bar>x\<bar> < 2 ^ nat (binade x + 1)" by simp
qed

lemma binade_small:
  assumes "x \<noteq> 0" "\<bar>x\<bar> < 1"
  shows "1 / 2 ^ nat (- binade x) \<le> \<bar>x\<bar>" "\<bar>x\<bar> < 2 / 2 ^ nat (- binade x)" "binade x < 0"
proof -
  let ?y = "1 / \<bar>x\<bar>"
  let ?n = "\<lceil>?y\<rceil> - 1"
  have y: "1 < ?y" using assms by simp
  then have n: "0 < ?n" by linarith
  from bitlen_bounds [OF n]
  have b: "2 ^ nat (bitlen ?n - 1) \<le> ?n" "?n < 2 ^ nat (bitlen ?n)" by simp_all
  have bl: "0 < bitlen ?n" using n bitlen_eq_zero_iff [of ?n] bitlen_nonneg [of ?n] by linarith
  have e: "binade x = - bitlen ?n" using assms by (simp add: binade_def)
  show "binade x < 0" using bl e by simp
  have ny: "real_of_int ?n < ?y" "?y \<le> real_of_int ?n + 1" by linarith+
  have "?n + 1 \<le> 2 ^ nat (bitlen ?n)" using b(2) by simp
  then have "real_of_int (?n + 1) \<le> real_of_int (2 ^ nat (bitlen ?n))" by linarith
  then have s1: "real_of_int ?n + 1 \<le> 2 ^ nat (bitlen ?n)" by simp
  from s1 ny(2) have up: "?y \<le> 2 ^ nat (bitlen ?n)" by linarith
  have x: "0 < \<bar>x\<bar>" using assms by simp
  from up x have "1 \<le> 2 ^ nat (bitlen ?n) * \<bar>x\<bar>"
    by (simp add: field_simps)
  then show "1 / 2 ^ nat (- binade x) \<le> \<bar>x\<bar>"
    by (simp add: e field_simps)
  have "real_of_int (2 ^ nat (bitlen ?n - 1)) \<le> real_of_int ?n" using b(1) by linarith
  then have s2: "2 ^ nat (bitlen ?n - 1) \<le> real_of_int ?n" by simp
  from s2 ny(1) have lo: "2 ^ nat (bitlen ?n - 1) < ?y" by linarith
  have p: "(2::real) ^ nat (bitlen ?n) = 2 * 2 ^ nat (bitlen ?n - 1)"
    using bl by (metis Suc_diff_1 nat_diff_distrib nat_one_as_int power_Suc zero_less_nat_eq zero_le_one less_imp_le diff_ge_0_iff_ge int_one_le_iff_zero_less)
  from lo x have "2 ^ nat (bitlen ?n - 1) * \<bar>x\<bar> < 1"
    by (simp add: field_simps)
  then show "\<bar>x\<bar> < 2 / 2 ^ nat (- binade x)"
    by (simp add: e p field_simps)
qed

lemma round_half_even_nearest: "\<bar>real_of_int (round_half_even x) - x\<bar> \<le> 1 / 2"
  unfolding round_half_even_def Let_def by (auto simp: abs_le_iff)

lemma round_half_even_tie:
  "x - real_of_int \<lfloor>x\<rfloor> = 1 / 2 \<Longrightarrow> even (round_half_even x)"
  unfolding round_half_even_def Let_def by auto

lemma scaled_rounding_error:
  fixes q :: real
  assumes "0 < q"
  shows "\<bar>real_of_int (round_half_even (x / q)) * q - x\<bar> \<le> q / 2"
proof -
  have "\<bar>real_of_int (round_half_even (x / q)) * q - x\<bar>
          = \<bar>real_of_int (round_half_even (x / q)) - x / q\<bar> * q"
    using assms by (simp add: abs_mult [symmetric] field_simps del: abs_mult)
  also have "\<dots> \<le> 1 / 2 * q"
    using round_half_even_nearest [of "x / q"] assms by (intro mult_right_mono) simp_all
  finally show ?thesis by simp
qed

lemma round_double_error:
  "\<bar>round_double x - x\<bar>
     \<le> (if 52 \<le> max (binade x) (- 1022) then 2 ^ nat (max (binade x) (- 1022) - 52) / 2
         else 1 / 2 ^ nat (52 - max (binade x) (- 1022)) / 2)"
proof (cases "x = 0")
  case True
  then show ?thesis by (simp add: round_double_def)
next
  case False
  define e where "e = max (binade x) (- 1022)"
  have rd: "round_double x =
      (if 52 \<le> e then of_int (round_half_even (x / 2 ^ nat (e - 52))) * 2 ^ nat (e - 52)
       else of_int (round_half_even (x * 2 ^ nat (52 - e))) / 2 ^ nat (52 - e))"
    using False unfolding round_double_def Let_def e_def by (simp only: if_False)
  have "\<bar>round_double x - x\<bar>
          \<le> (if 52 \<le> e then 2 ^ nat (e - 52) / 2 else 1 / 2 ^ nat (52 - e) / 2)"
  proof (cases "52 \<le> e")
    case True
    then show ?thesis
      unfolding rd using scaled_rounding_error [of "2 ^ nat (e - 52)" x] by simp
  next
    case b: False
    have "\<bar>real_of_int (round_half_even (x / (1 / 2 ^ nat (52 - e)))) * (1 / 2 ^ nat (52 - e)) - x\<bar>
          \<le> 1 / 2 ^ nat (52 - e) / 2"
      by (rule scaled_rounding_error) simp
    then show ?thesis
      unfolding rd using b by simp
  qed
  then show ?thesis unfolding e_def .
qed

section \<open>Aggregation: priority pages and confidence\<close>

lemma finish_confidence [simp]:
  "agg_confidence (aggregate_finish enum a) = agg_confidence a"
  by (simp add: aggregate_finish_def Let_def)

lemma finish_tracking [simp]:
  "agg_tracking_or_awb (aggregate_finish enum a) = agg_tracking_or_awb a"
  by (simp add: aggregate_finish_def Let_def)

lemma step_confidence:
  "agg_confidence (aggregate_step a r) =
     (if confidence_value (er_confidence r) < confidence_value (agg_confidence a)
      then er_confidence r else agg_confidence a)"
  by (simp add: aggregate_step_def)

lemma step_confidence_high:
  "agg_confidence a = HIGH \<Longrightarrow> agg_confidence (aggregate_step a r) = HIGH"
  by (cases "er_confidence r") (simp_all add: step_confidence)

lemma step_confidence_low:
  "agg_confidence a = LOW \<Longrightarrow>
     agg_confidence (aggregate_step a r) = (if er_confidence r = HIGH then HIGH else LOW)"
  by (cases "er_confidence r") (simp_all add: step_confidence)

lemma fold_confidence_high:
  "agg_confidence a = HIGH \<Longrightarrow> agg_confidence (foldl aggregate_step a rs) = HIGH"
  by (induction rs arbitrary: a) (simp_all add: step_confidence_high)

lemma fold_confidence_low:
  "agg_confidence a = LOW \<Longrightarrow>
     agg_confidence (foldl aggregate_step a rs) =
       (if \<exists>r \<in> set rs. er_confidence r = HIGH then HIGH else LOW)"
proof (induction rs arbitrary: a)
  case Nil
  then show ?case by simp
next
  case (Cons r rs)
  show ?case
  proof (cases "er_confidence r = HIGH")
    case True
    then have "agg_confidence (aggregate_step a r) = HIGH"
      using Cons.prems by (simp add: step_confidence_low)
    then show ?thesis using True by (simp add: fold_confidence_high)
  next
    case False
    then have "agg_confidence (aggregate_step a r) = LOW"
      using Cons.prems by (simp add: step_confidence_low)
    then show ?thesis using False Cons.IH by simp
  qed
qed

lemma aggregate_confidence_eq:
  "agg_confidence (aggregate_inbound enum rs f) =
     (if \<exists>r \<in> set rs. er_confidence r = HIGH then HIGH else LOW)"
  by (simp add: aggregate_inbound_def fold_confidence_low aggregated_init_def)

lemma step_tracking:
  "agg_tracking_or_awb (aggregate_step a r) =
     (if truthy (er_tracking_or_awb r) \<and> (is_priority r \<or> agg_tracking_or_awb a = None)
      then er_tracking_or_awb r else agg_tracking_or_awb a)"
  by (simp add: aggregate_step_def)

text \<open>
  What the loop leaves in the tracking field: the value of the last priority page
  that has one; without such a page, the value the field had, or else the value of
  the first page that has one.
\<close>

lemma fold_tracking:
  "agg_tracking_or_awb (foldl aggregate_step a rs) =
     (case filter (\<lambda>r. is_priority r \<and> truthy (er_tracking_or_awb r)) rs of
        [] \<Rightarrow> (case agg_tracking_or_awb a of
                 Some v \<Rightarrow> Some v
               | None \<Rightarrow> (case filter (\<lambda>r. truthy (er_tracking_or_awb r)) rs of
                           [] \<Rightarrow> None | r # _ \<Rightarrow> er_tracking_or_awb r))
      | p # ps \<Rightarrow> er_tracking_or_awb (last (p # ps)))"
proof (induction rs arbitrary: a)
  case Nil
  then show ?case by (simp split: option.splits)
next
  case (Cons r rs)
  show ?case
    unfolding foldl_Cons Cons.IH [of "aggregate_step a r"] step_tracking
    by (cases "er_tracking_or_awb r") (auto split: list.splits option.splits)
qed

text \<open>
  C1. Two air-waybill pages, both of a priority class, carry different tracking
  identifiers. The aggregate keeps the identifier of the second page: a priority page
  writes its value whatever the field holds, so the last priority page wins, not the
  first.
\<close>

theorem aggregate_later_priority_page_overwrites:
  "agg_tracking_or_awb
     (aggregate_inbound remdups [awb_page ''111-11111111'', awb_page ''222-22222222''] ''PDO 2500444.pdf'')
   = Some ''222-22222222''"
  by (simp add: aggregate_inbound_def aggregate_step_def awb_page_def ExtractionResult_init_def
        aggregated_init_def is_priority_def priority_types_def)

text \<open>
  C2, as stated, fails: for a HIGH page followed by a LOW page the aggregate is HIGH,
  while the least confident page is LOW.
\<close>

theorem aggregate_confidence_not_lowest:
  "agg_confidence
     (aggregate_inbound remdups [page_with_confidence HIGH, page_with_confidence LOW] ''PDO 2500444.pdf'')
   \<noteq> spec_lowest_confidence
       (map er_confidence [page_with_confidence HIGH, page_with_confidence LOW])"
  by (simp add: aggregate_confidence_eq spec_lowest_confidence_def page_with_confidence_def
        ExtractionResult_init_def)

text \<open>
  C2, amended. The aggregate confidence starts at LOW and a page replaces it when the
  page's tag is smaller as a string; HIGH is the smallest string. So the aggregate is
  HIGH as soon as one page is HIGH, whatever the other pages are, and it is LOW when
  every page is LOW.
\<close>

theorem aggregate_confidence_high_wins:
  "((\<exists>r \<in> set rs. er_confidence r = HIGH)
      \<longrightarrow> agg_confidence (aggregate_inbound enum rs f) = HIGH)
   \<and> ((\<forall>r \<in> set rs. er_confidence r = LOW)
      \<longrightarrow> agg_confidence (aggregate_inbound enum rs f) = LOW)"
  by (auto simp add: aggregate_confidence_eq)

theorem aggregate_confidence_high_wins_witness:
  "agg_confidence
     (aggregate_inbound remdups [page_with_confidence LOW, page_with_confidence HIGH,
        page_with_confidence LOW] ''PDO 2500444.pdf'') = HIGH
   \<and> agg_confidence
       (aggregate_inbound remdups [page_with_confidence LOW, page_with_confidence LOW]
          ''PDO 2500444.pdf'') = LOW"
proof -
  have c: "er_confidence (page_with_confidence x) = x" for x
    by (simp add: page_with_confidence_def ExtractionResult_init_def)
  from aggregate_confidence_high_wins
         [of "[page_with_confidence LOW, page_with_confidence HIGH, page_with_confidence LOW]"
             remdups "''PDO 2500444.pdf''"]
       aggregate_confidence_high_wins
         [of "[page_with_confidence LOW, page_with_confidence LOW]" remdups "''PDO 2500444.pdf''"]
  show ?thesis by (simp add: c)
qed

section \<open>Identifier matching\<close>

text \<open>
  C6. The ledger holds the record 1500430 first and the record 2500430 second. For
  the candidate 2500430 the loop stops at the first sheet, where the last five
  characters agree, and never reaches the record whose identifier is equal.
\<close>

theorem match_fuzzy_on_earlier_sheet_beats_exact:
  "map (\<lambda>(c, d). (c, sap_pdo_number d)) (match_pdo_to_filename [''2500430''] suffix_ledger)
     = [(''2500430'', ''1500430'')]
   \<and> (\<exists>d \<in> set (map snd suffix_ledger). sap_pdo_number d = ''2500430'')"
  by (simp add: match_pdo_to_filename_def suffix_ledger_def demo_ledger_record_def last5_def)

section \<open>Reconciliation\<close>

lemma findall_demo: "findall_7digits ''PDO2500444'' = [''2500444'']"
  by (simp add: findall_7digits.simps is_digit_def)

lemma match_demo:
  "find_matching_sap (in_reference (demo_shipment v)) (demo_ledger l)
     = Some (demo_ledger_record ''2500444'' l)"
  by (simp add: find_matching_sap_def demo_shipment_def findall_demo demo_ledger_record_def
        demo_ledger_def)

lemma check_currency_total [simp]:
  "in_total_value (snd (check_currency a m s)) = in_total_value s"
  by (simp add: check_currency_def)

lemma filter_currency [simp]:
  "filter (\<lambda>i. ri_issue_type i = VALUE_MISMATCH) (fst (check_currency a m s)) = []"
  by (simp add: check_currency_def)

lemma check_value_filter [simp]:
  "filter (\<lambda>i. ri_issue_type i = VALUE_MISMATCH) (fst (check_value t a m s))
     = fst (check_value t a m s)"
  by (simp add: check_value_def Let_def)

lemma apply_sap_value: "a \<Longrightarrow> in_total_value (apply_sap a m s) = Some (sap_total_value m)"
  by (simp add: apply_sap_def Let_def)

lemma apply_sap_currency: "a \<Longrightarrow> in_currency (apply_sap a m s) = Some (sap_currency m)"
  by (simp add: apply_sap_def Let_def)

lemma reconcile_matched:
  assumes "find_matching_sap (in_reference s) sap = Some m"
  shows "reconcile_inbound eng s sap ap =
    (let a = (case ap of None \<Rightarrow> eng_auto_apply eng | Some b \<Rightarrow> b);
         c = check_currency a m s; v = check_value (eng_tolerance eng) a m (snd c)
     in (\<lparr> rr_reference = in_reference s, rr_matched_pdo = Some (sap_pdo_number m),
            rr_issues = fst c @ fst v, rr_sap_used = True \<rparr>, apply_sap a m (snd v)))"
  using assms by (simp add: reconcile_inbound_def Let_def split_beta)

lemma value_mismatches_matched:
  assumes "find_matching_sap (in_reference s) sap = Some m"
  shows "value_mismatches (fst (reconcile_inbound eng s sap ap)) =
     fst (check_value (eng_tolerance eng)
            (case ap of None \<Rightarrow> eng_auto_apply eng | Some b \<Rightarrow> b) m
            (snd (check_currency (case ap of None \<Rightarrow> eng_auto_apply eng | Some b \<Rightarrow> b) m s)))"
  by (simp add: reconcile_matched [OF assms] Let_def value_mismatches_def)

lemma shipment_after_matched:
  assumes "find_matching_sap (in_reference s) sap = Some m"
  shows "snd (reconcile_inbound eng s sap ap) =
     (let a = (case ap of None \<Rightarrow> eng_auto_apply eng | Some b \<Rightarrow> b)
      in apply_sap a m
           (snd (check_value (eng_tolerance eng) a m (snd (check_currency a m s)))))"
  by (simp add: reconcile_matched [OF assms] Let_def)

lemma check_value_present:
  assumes "in_total_value s = Some v" "v \<noteq> 0" "sap_total_value m \<noteq> 0"
  shows "length (fst (check_value t a m s))
           = (if float_gt (diff_pct v (sap_total_value m)) t then 1 else 0)"
    and "\<forall>i \<in> set (fst (check_value t a m s)).
           ri_severity i = (if float_lt (diff_pct v (sap_total_value m)) 10 then INFO else WARNING)
           \<and> ri_auto_resolvable i"
  using assms by (simp_all add: check_value_def Let_def)

lemma check_value_absent:
  assumes "in_total_value s = None \<or> in_total_value s = Some 0 \<or> sap_total_value m = 0"
  shows "fst (check_value t a m s) = []"
  using assms by (auto simp add: check_value_def Let_def)

text \<open>The deviations of the examples, as the floats compute them.\<close>

lemma to_float_finite:
  assumes "round_double x = r" "\<bar>r\<bar> \<le> 4611686018427387904"
  shows "to_float x = Finite r"
proof -
  have "(4611686018427387904::real) < 2 ^ 1024"
  proof -
    have "(4611686018427387904::real) = 2 ^ 62" by simp
    also have "\<dots> < 2 ^ 1024" by (rule power_strict_increasing) simp_all
    finally show ?thesis .
  qed
  with assms(2) have "r < 2 ^ 1024" "- (2 ^ 1024) < r" by linarith+
  then show ?thesis
    unfolding to_float_def Let_def assms(1) by (simp only: not_le [symmetric] if_False)
qed

lemma diff_pct_107: "diff_pct 107 100 = Finite (7 + 1 / 2 ^ 50)"
proof -
  have r1: "round_double (107 - 100) = 7" by code_simp
  have r2: "round_double (\<bar>7\<bar> / 100) = 1261007895663739 / 18014398509481984" by code_simp
  have r3: "round_double (1261007895663739 / 18014398509481984 * 100) = 7 + 1 / 2 ^ 50"
    by code_simp
  have f1: "to_float (107 - 100) = Finite 7"
    by (rule to_float_finite [OF r1]) simp
  have f2: "to_float (\<bar>7\<bar> / 100) = Finite (1261007895663739 / 18014398509481984)"
    by (rule to_float_finite [OF r2]) simp
  have f3: "to_float (1261007895663739 / 18014398509481984 * 100) = Finite (7 + 1 / 2 ^ 50)"
    by (rule to_float_finite [OF r3]) simp
  show ?thesis
    unfolding diff_pct_def f1 pyfloat.case f2 f3 ..
qed

lemma diff_pct_1050: "diff_pct 1050 1000 = Finite 5"
proof -
  have r1: "round_double (1050 - 1000) = 50" by code_simp
  have r2: "round_double (\<bar>50\<bar> / 1000) = 3602879701896397 / 72057594037927936" by code_simp
  have r3: "round_double (3602879701896397 / 72057594037927936 * 100) = 5" by code_simp
  have f1: "to_float (1050 - 1000) = Finite 50"
    by (rule to_float_finite [OF r1]) simp
  have f2: "to_float (\<bar>50\<bar> / 1000) = Finite (3602879701896397 / 72057594037927936)"
    by (rule to_float_finite [OF r2]) simp
  have f3: "to_float (3602879701896397 / 72057594037927936 * 100) = Finite 5"
    by (rule to_float_finite [OF r3]) simp
  show ?thesis
    unfolding diff_pct_def f1 pyfloat.case f2 f3 ..
qed

lemma diff_pct_1200: "diff_pct 1200 1000 = Finite 20"
proof -
  have r1: "round_double (1200 - 1000) = 200" by code_simp
  have r2: "round_double (\<bar>200\<bar> / 1000) = 3602879701896397 / 18014398509481984" by code_simp
  have r3: "round_double (3602879701896397 / 18014398509481984 * 100) = 20" by code_simp
  have f1: "to_float (1200 - 1000) = Finite 200"
    by (rule to_float_finite [OF r1]) simp
  have f2: "to_float (\<bar>200\<bar> / 1000) = Finite (3602879701896397 / 18014398509481984)"
    by (rule to_float_finite [OF r2]) simp
  have f3: "to_float (3602879701896397 / 18014398509481984 * 100) = Finite 20"
    by (rule to_float_finite [OF r3]) simp
  show ?thesis
    unfolding diff_pct_def f1 pyfloat.case f2 f3 ..
qed

text \<open>
  C4, as stated, fails: for the value 107.0 against the ledger value 100.0 at a
  tolerance of 7.0 the deviation \<open>|107 - 100| / 100 * 100\<close> is 7, which does not
  exceed the tolerance, and the code reports a value-mismatch issue: in doubles
  \<open>7.0 / 100.0 * 100\<close> is \<open>7.000000000000001\<close>.
\<close>

theorem reconcile_value_mismatch_rounding:
  "\<not> (\<bar>107 - 100\<bar> / 100 * 100 > (7::real))
   \<and> length (value_mismatches (fst (reconcile_inbound
          \<lparr> eng_tolerance = 7, eng_auto_apply = True \<rparr> (demo_shipment (Some 107))
          (demo_ledger 100) (Some True)))) = 1"
proof -
  have a: "in_total_value (snd (check_currency True (demo_ledger_record ''2500444'' 100)
             (demo_shipment (Some 107)))) = Some 107"
    by (simp add: demo_shipment_def)
  have b: "sap_total_value (demo_ledger_record ''2500444'' 100) = 100"
    by (simp add: demo_ledger_record_def)
  have "length (fst (check_value 7 True (demo_ledger_record ''2500444'' 100)
          (snd (check_currency True (demo_ledger_record ''2500444'' 100)
             (demo_shipment (Some 107)))))) = 1"
    using check_value_present(1) [OF a, of "demo_ledger_record ''2500444'' 100" 7 True]
    by (simp add: b diff_pct_107)
  then show ?thesis
    by (simp add: value_mismatches_matched [OF match_demo])
qed

text \<open>
  C4, amended. A ledger record \<open>m\<close> is matched, the shipment's value \<open>v\<close> and the
  ledger's value are both present, which the code tests by truthiness: neither is
  \<open>None\<close> nor zero. Let \<open>d\<close> be the deviation as the code computes it in
  double-precision arithmetic, \<open>diff_pct\<close>: the subtraction, the division by the ledger
  value and the multiplication by 100 each rounded to the nearest double. Then the
  result holds one value-mismatch issue when \<open>d\<close> exceeds the tolerance and none
  otherwise; the issue is info when \<open>d\<close> is below 10 and warning otherwise, and it is
  auto-resolvable; with auto-apply the shipment's value is the ledger's afterwards.
\<close>

theorem reconcile_value_mismatch:
  assumes m: "find_matching_sap (in_reference s) sap = Some m"
    and v: "in_total_value s = Some v" "v \<noteq> 0" "sap_total_value m \<noteq> 0"
  shows "(let (r, s') = reconcile_inbound eng s sap ap;
             d = diff_pct v (sap_total_value m);
             auto_apply = (case ap of None \<Rightarrow> eng_auto_apply eng | Some b \<Rightarrow> b)
         in length (value_mismatches r) = (if float_gt d (eng_tolerance eng) then 1 else 0)
          \<and> (\<forall>i \<in> set (value_mismatches r).
                ri_severity i = (if float_lt d 10 then INFO else WARNING)
                \<and> ri_auto_resolvable i)
          \<and> (auto_apply \<longrightarrow> in_total_value s' = Some (sap_total_value m)))"
proof -
  let ?a = "case ap of None \<Rightarrow> eng_auto_apply eng | Some b \<Rightarrow> b"
  let ?s1 = "snd (check_currency ?a m s)"
  have v1: "in_total_value ?s1 = Some v" using v(1) by simp
  note cv = check_value_present [OF v1 v(2) v(3), of "eng_tolerance eng" ?a]
  show ?thesis
    unfolding split_beta Let_def value_mismatches_matched [OF m] shipment_after_matched [OF m]
    using cv by (simp add: apply_sap_value)
qed

text \<open>
  The two scenarios of the specification at the default tolerance of 5: 1050 against
  1000 gives no value-mismatch issue (the floats compute exactly 5); 1200 against 1000
  gives exactly one, a warning, and the shipment's value is 1000 afterwards.
\<close>

theorem reconcile_value_mismatch_witness:
  "(let (r, s') = reconcile_inbound ReconciliationEngine_init (demo_shipment (Some 1050))
                    (demo_ledger 1000) (Some True)
    in value_mismatches r = [])
   \<and> (let (r, s') = reconcile_inbound ReconciliationEngine_init (demo_shipment (Some 1200))
                    (demo_ledger 1000) (Some True)
      in length (value_mismatches r) = 1
         \<and> (\<forall>i \<in> set (value_mismatches r). ri_severity i = WARNING \<and> ri_auto_resolvable i)
         \<and> in_total_value s' = Some 1000)"
proof -
  have a: "in_total_value (demo_shipment (Some v)) = Some v" for v
    by (simp add: demo_shipment_def)
  have b: "sap_total_value (demo_ledger_record ''2500444'' 1000) \<noteq> 0"
    by (simp add: demo_ledger_record_def)
  have c: "sap_total_value (demo_ledger_record ''2500444'' 1000) = 1000"
    by (simp add: demo_ledger_record_def)
  have t: "eng_tolerance ReconciliationEngine_init = 5"
    by (simp add: ReconciliationEngine_init_def)
  from reconcile_value_mismatch [OF match_demo a _ b, of 1050 ReconciliationEngine_init "Some True"]
       reconcile_value_mismatch [OF match_demo a _ b, of 1200 ReconciliationEngine_init "Some True"]
  show ?thesis by (simp add: c t split_beta Let_def diff_pct_1050 diff_pct_1200)
qed

text \<open>
  C5, as stated, fails: the matched ledger record has no brands and no region splits,
  and after reconciliation with auto-apply the shipment still has its own brand list
  and splits, not the ledger's empty ones.
\<close>

theorem reconcile_keeps_brands_when_ledger_has_none:
  "find_matching_sap (in_reference (demo_shipment (Some 1200)))
     [(''PDO2500444'', bare_ledger_record)] = Some bare_ledger_record
   \<and> in_brands (snd (reconcile_inbound ReconciliationEngine_init (demo_shipment (Some 1200))
        [(''PDO2500444'', bare_ledger_record)] (Some True))) \<noteq> sap_brands bare_ledger_record
   \<and> in_country_splits (snd (reconcile_inbound ReconciliationEngine_init
        (demo_shipment (Some 1200)) [(''PDO2500444'', bare_ledger_record)] (Some True)))
      \<noteq> sap_country_splits bare_ledger_record"
proof -
  have m: "find_matching_sap (in_reference (demo_shipment (Some 1200)))
     [(''PDO2500444'', bare_ledger_record)] = Some bare_ledger_record"
    by (simp add: find_matching_sap_def demo_shipment_def findall_demo bare_ledger_record_def
          demo_ledger_record_def)
  have b: "in_brands (snd (reconcile_inbound ReconciliationEngine_init (demo_shipment (Some 1200))
        [(''PDO2500444'', bare_ledger_record)] (Some True))) = [''HLC'']"
    unfolding shipment_after_matched [OF m] Let_def
    by (simp add: check_value_def check_currency_def apply_sap_def Let_def
          bare_ledger_record_def demo_ledger_record_def demo_shipment_def)
  have c: "in_country_splits (snd (reconcile_inbound ReconciliationEngine_init
        (demo_shipment (Some 1200)) [(''PDO2500444'', bare_ledger_record)] (Some True)))
      = [(''VIT'', 50)]"
    unfolding shipment_after_matched [OF m] Let_def
    by (simp add: check_value_def check_currency_def apply_sap_def Let_def
          bare_ledger_record_def demo_ledger_record_def demo_shipment_def)
  have e: "sap_brands bare_ledger_record = [] \<and> sap_country_splits bare_ledger_record = []"
    by (simp add: bare_ledger_record_def)
  show ?thesis
    unfolding b c using m e by simp
qed

text \<open>
  C5, amended. With auto-apply and a matched ledger record, the shipment's currency
  and total value are the ledger's afterwards, whatever issues were reported; the brand
  list and the region splits are replaced by the ledger's when the ledger's are not
  empty, and are left as they were when the ledger's are empty.
\<close>

theorem reconcile_auto_apply_overwrite:
  assumes m: "find_matching_sap (in_reference s) sap = Some m"
    and a: "(case ap of None \<Rightarrow> eng_auto_apply eng | Some b \<Rightarrow> b)"
  shows "(let s' = snd (reconcile_inbound eng s sap ap)
         in in_currency s' = Some (sap_currency m)
          \<and> in_total_value s' = Some (sap_total_value m)
          \<and> in_brands s' = (if sap_brands m \<noteq> [] then sap_brands m else in_brands s)
          \<and> in_country_splits s' =
              (if sap_country_splits m \<noteq> [] then sap_country_splits m
               else in_country_splits s))"
  unfolding shipment_after_matched [OF m] Let_def
  using a by (simp add: check_value_def check_currency_def apply_sap_def Let_def)

theorem reconcile_auto_apply_overwrite_witness:
  "(let s' = snd (reconcile_inbound ReconciliationEngine_init (demo_shipment (Some 1200))
                    (demo_ledger 1000) None)
    in in_currency s' = Some ''USD'' \<and> in_total_value s' = Some 1000
       \<and> in_brands s' = [''NST''] \<and> in_country_splits s' = [(''SIN'', 600), (''MAL'', 400)])"
proof -
  have a: "(case None of None \<Rightarrow> eng_auto_apply ReconciliationEngine_init | Some b \<Rightarrow> b)"
    by (simp add: ReconciliationEngine_init_def)
  from reconcile_auto_apply_overwrite [OF match_demo a, of "Some 1200" 1000]
  show ?thesis by (simp add: demo_ledger_record_def Let_def)
qed

text \<open>
  C10. A ledger record is matched and the shipment's value is \<open>None\<close> or zero, or
  the ledger's value is zero. Then no value-mismatch issue is reported, and with
  auto-apply the shipment's value and currency are the ledger's afterwards.
\<close>

theorem reconcile_no_value_check_when_absent:
  assumes m: "find_matching_sap (in_reference s) sap = Some m"
    and v: "in_total_value s = None \<or> in_total_value s = Some 0 \<or> sap_total_value m = 0"
  shows "(let (r, s') = reconcile_inbound eng s sap ap;
             auto_apply = (case ap of None \<Rightarrow> eng_auto_apply eng | Some b \<Rightarrow> b)
         in value_mismatches r = []
          \<and> (auto_apply \<longrightarrow> in_total_value s' = Some (sap_total_value m)
                \<and> in_currency s' = Some (sap_currency m)))"
  unfolding split_beta Let_def value_mismatches_matched [OF m] shipment_after_matched [OF m]
  using check_value_absent
          [of "snd (check_currency (case ap of None \<Rightarrow> eng_auto_apply eng | Some b \<Rightarrow> b) m s)" m]
        v
  by (simp add: apply_sap_value apply_sap_currency)

theorem reconcile_no_value_check_when_absent_witness:
  "(let (r, s') = reconcile_inbound ReconciliationEngine_init (demo_shipment None)
                    (demo_ledger 1000000) (Some True)
    in value_mismatches r = [] \<and> in_total_value s' = Some 1000000
       \<and> in_currency s' = Some ''USD'')
   \<and> (let (r, s') = reconcile_inbound ReconciliationEngine_init (demo_shipment (Some 0))
                    (demo_ledger 1000000) (Some True)
      in value_mismatches r = [] \<and> in_total_value s' = Some 1000000)"
proof -
  have a: "in_total_value (demo_shipment None) = None
           \<or> in_total_value (demo_shipment None) = Some 0
           \<or> sap_total_value (demo_ledger_record ''2500444'' 1000000) = 0"
    by (simp add: demo_shipment_def)
  have b: "in_total_value (demo_shipment (Some 0)) = None
           \<or> in_total_value (demo_shipment (Some 0)) = Some 0
           \<or> sap_total_value (demo_ledger_record ''2500444'' 1000000) = 0"
    by (simp add: demo_shipment_def)
  from reconcile_no_value_check_when_absent
         [OF match_demo a, of ReconciliationEngine_init "Some True"]
       reconcile_no_value_check_when_absent
         [OF match_demo b, of ReconciliationEngine_init "Some True"]
  show ?thesis by (simp add: demo_ledger_record_def split_beta Let_def)
qed

section \<open>Validation\<close>




lemma inbound_issues_indep:
  "inbound_issues (s\<lparr>in_validation_issues := x\<rparr>) = inbound_issues s"
  by (simp add: inbound_issues_def Let_def)

lemma outbound_issues_indep:
  "outbound_issues (s\<lparr>out_validation_issues := x\<rparr>) = outbound_issues s"
  by (simp add: outbound_issues_def)

text \<open>
  C9, as stated, fails: \<open>validate\<close> stores the issues on the record, so the record
  after the call differs from the record before it.
\<close>

theorem validate_changes_the_record:
  "snd (InboundShipment_validate (demo_shipment None)) \<noteq> demo_shipment None"
proof
  assume "snd (InboundShipment_validate (demo_shipment None)) = demo_shipment None"
  then have "in_validation_issues (snd (InboundShipment_validate (demo_shipment None)))
               = in_validation_issues (demo_shipment None)"
    by simp
  then show False
    by (simp add: InboundShipment_validate_def Let_def inbound_issues_def demo_shipment_def)
qed

text \<open>
  C9, amended. \<open>validate\<close> changes no field of the record other than
  \<open>validation_issues\<close>, where it stores the list it returns; the list is computed
  from the other fields alone, whatever \<open>validation_issues\<close> held before. This holds
  for inbound and for outbound shipments.
\<close>

theorem validate_frame:
  "snd (InboundShipment_validate s) = s\<lparr>in_validation_issues := fst (InboundShipment_validate s)\<rparr>
   \<and> fst (InboundShipment_validate (s\<lparr>in_validation_issues := old\<rparr>))
       = fst (InboundShipment_validate s)
   \<and> snd (OutboundShipment_validate t)
       = t\<lparr>out_validation_issues := fst (OutboundShipment_validate t)\<rparr>
   \<and> fst (OutboundShipment_validate (t\<lparr>out_validation_issues := old'\<rparr>))
       = fst (OutboundShipment_validate t)"
  by (simp add: InboundShipment_validate_def OutboundShipment_validate_def Let_def
        inbound_issues_indep outbound_issues_indep)

theorem validate_frame_witness:
  "in_validation_issues (snd (InboundShipment_validate (demo_shipment None)))
     = fst (InboundShipment_validate (demo_shipment None))
   \<and> in_reference (snd (InboundShipment_validate (demo_shipment None))) = ''PDO2500444''
   \<and> map vi_field (fst (InboundShipment_validate (demo_shipment None)))
       = [''tracking_or_awb'', ''etd_date'']"
proof -
  have "map vi_field (fst (InboundShipment_validate (demo_shipment None)))
          = [''tracking_or_awb'', ''etd_date'']"
    by (simp add: InboundShipment_validate_def Let_def inbound_issues_def demo_shipment_def)
  moreover have "in_reference (demo_shipment None) = ''PDO2500444''"
    by (simp add: demo_shipment_def)
  ultimately show ?thesis
    using validate_frame [of "demo_shipment None"] by simp
qed

section \<open>Classification tiers\<close>

lemma brand_count:
  "filter (starts_with ''brand:'') (map (\<lambda>(pattern, cats). ''compound:'' @ pattern_src pattern) ch) = []"
  "filter (starts_with ''brand:'') (map (\<lambda>(brand, cat). ''brand:'' @ brand) bh)
     = map (\<lambda>(brand, cat). ''brand:'' @ brand) bh"
  "filter (starts_with ''brand:'') (map (\<lambda>(cat, pattern). ''keyword:'' @ pattern_src pattern) kh) = []"
  by (induction ch, auto) (induction bh, auto, induction kh, auto)

lemma keyword_count:
  "filter (starts_with ''keyword:'') (map (\<lambda>(pattern, cats). ''compound:'' @ pattern_src pattern) ch) = []"
  "filter (starts_with ''keyword:'') (map (\<lambda>(brand, cat). ''brand:'' @ brand) bh) = []"
  "filter (starts_with ''keyword:'') (map (\<lambda>(cat, pattern). ''keyword:'' @ pattern_src pattern) kh)
     = map (\<lambda>(cat, pattern). ''keyword:'' @ pattern_src pattern) kh"
  by (induction ch, auto) (induction bh, auto, induction kh, auto)

lemma compound_count:
  "filter (starts_with ''compound:'') (map (\<lambda>(pattern, cats). ''compound:'' @ pattern_src pattern) ch)
     = map (\<lambda>(pattern, cats). ''compound:'' @ pattern_src pattern) ch"
  "filter (starts_with ''compound:'') (map (\<lambda>(brand, cat). ''brand:'' @ brand) bh) = []"
  "filter (starts_with ''compound:'') (map (\<lambda>(cat, pattern). ''keyword:'' @ pattern_src pattern) kh) = []"
  by (induction ch, auto) (induction bh, auto, induction kh, auto)

text \<open>The confidence of an evidence list is a function of the number of matches per tier.\<close>

lemma calculate_confidence_tiers:
  "calculate_confidence
     (map (\<lambda>(pattern, cats). ''compound:'' @ pattern_src pattern) ch
      @ map (\<lambda>(brand, cat). ''brand:'' @ brand) bh
      @ map (\<lambda>(cat, pattern). ''keyword:'' @ pattern_src pattern) kh)
   = (if ch = [] \<and> bh = [] \<and> kh = [] then round_double 0.2
      else confidence_of_counts (length bh) (length kh) (length ch))"
  unfolding calculate_confidence_def filter_append brand_count keyword_count compound_count
  by simp

text \<open>
  C3, as stated, fails: the description "Profhilo Haenkenium Cream" contains no
  verbatim label and matches a compound rule, and the evidence list still holds the
  brand rule for profhilo and the keyword rule for cream.
\<close>

theorem classify_compound_does_not_short_circuit:
  "verbatim_hits ProductClassifier_init (py_strip (py_lower ''Profhilo Haenkenium Cream'')) = []
   \<and> compound_hits ProductClassifier_init (py_strip (py_lower ''Profhilo Haenkenium Cream'')) \<noteq> []
   \<and> ''brand:profhilo''
        \<in> set (cr_matched_patterns (classify ProductClassifier_init ''Profhilo Haenkenium Cream''))
   \<and> ''keyword:'' @ pattern_src (word ''cream'')
        \<in> set (cr_matched_patterns (classify ProductClassifier_init ''Profhilo Haenkenium Cream''))"
  by code_simp

text \<open>
  C3, amended. For a non-empty description and any rule tables: when a verbatim label
  with categories occurs in the description, the result is built from the verbatim
  matches alone, at the confidence 0.95, and no other tier is evaluated. When no
  verbatim label occurs, the compound, brand and keyword tiers are all evaluated, in
  that order, and a match in one of them does not keep the later ones from
  contributing:
  \<^item> the evidence list is the compound matches, then the brand matches, then the
    keyword matches (one per category);
  \<^item> the categories are those of all these matches, sorted by name, without
    medical devices when the Haenkenium override applies, and \<open>Unknown\<close> when there
    are none;
  \<^item> the confidence is 0.5 plus 0.2 per brand match, 0.1 per keyword match and 0.25
    per compound match, capped at 1.0, computed in double precision, and 0.2 when
    there is no category.
\<close>

theorem classify_tiers:
  assumes "description \<noteq> []"
  shows "(let d = py_strip (py_lower description); r = classify clf description;
              vh = verbatim_hits clf d; ch = compound_hits clf d;
              bh = brand_hits clf d; kh = keyword_hits clf d;
              pats = map (\<lambda>(pattern, cats). ''compound:'' @ pattern_src pattern) ch
                     @ map (\<lambda>(brand, cat). ''brand:'' @ brand) bh
                     @ map (\<lambda>(cat, pattern). ''keyword:'' @ pattern_src pattern) kh;
              cats = concat (map snd ch) @ map snd bh @ map fst kh;
              override = (MEDICAL_DEVICES \<in> set cats \<and> SKINCARE_PRODUCTS \<in> set cats
                          \<and> contains ''haenkenium cream'' d
                          \<and> \<not> has_medical_device_keyword pats);
              kept = (if override then filter (\<lambda>c. c \<noteq> MEDICAL_DEVICES) cats else cats)
          in (concat (map snd vh) \<noteq> [] \<longrightarrow>
                cr_matched_patterns r = map (\<lambda>(label, cats). ''verbatim:'' @ label) vh
                \<and> cr_confidence r = round_double 0.95
                \<and> cr_categories r = sorted_categories (concat (map snd vh)))
           \<and> (vh = [] \<longrightarrow>
                cr_matched_patterns r = pats
                \<and> cr_categories r
                    = (if kept = [] then [CATEGORY_UNKNOWN] else sorted_categories kept)
                \<and> cr_confidence r
                    = (if kept = [] then round_double 0.2
                       else confidence_of_counts (length bh) (length kh) (length ch))))"
proof -
  let ?d = "py_strip (py_lower description)"
  have verbatim: "concat (map snd (verbatim_hits clf ?d)) \<noteq> [] \<Longrightarrow>
      cr_matched_patterns (classify clf description)
        = map (\<lambda>(label, cats). ''verbatim:'' @ label) (verbatim_hits clf ?d)
      \<and> cr_confidence (classify clf description) = round_double 0.95
      \<and> cr_categories (classify clf description)
          = sorted_categories (concat (map snd (verbatim_hits clf ?d)))"
    using assms by (simp add: classify_def Let_def)
  define ch where "ch = compound_hits clf ?d"
  define bh where "bh = brand_hits clf ?d"
  define kh where "kh = keyword_hits clf ?d"
  define pats where
    "pats = map (\<lambda>(pattern, cats). ''compound:'' @ pattern_src pattern) ch
            @ map (\<lambda>(brand, cat). ''brand:'' @ brand) bh
            @ map (\<lambda>(cat, pattern). ''keyword:'' @ pattern_src pattern) kh"
  define cats where "cats = concat (map snd ch) @ map snd bh @ map fst kh"
  define kept where
    "kept = (if MEDICAL_DEVICES \<in> set cats \<and> SKINCARE_PRODUCTS \<in> set cats
                \<and> contains ''haenkenium cream'' ?d \<and> \<not> has_medical_device_keyword pats
             then filter (\<lambda>c. c \<noteq> MEDICAL_DEVICES) cats else cats)"
  note defs = kept_def cats_def pats_def ch_def bh_def kh_def
  have sel_if:
    "cr_matched_patterns (if b then x else y)
       = (if b then cr_matched_patterns x else cr_matched_patterns y)"
    "cr_categories (if b then x else y) = (if b then cr_categories x else cr_categories y)"
    "cr_confidence (if b then x else y) = (if b then cr_confidence x else cr_confidence y)"
    for b and x y :: ClassificationResult
    by simp_all
  have p: "cr_matched_patterns (classify clf description) = pats"
    if vh: "verbatim_hits clf ?d = []"
    unfolding classify_def Let_def vh defs using assms
    by (simp add: sel_if split del: if_split cong: if_cong)
  have c: "cr_categories (classify clf description)
             = (if kept = [] then [CATEGORY_UNKNOWN] else sorted_categories kept)"
    if vh: "verbatim_hits clf ?d = []"
    unfolding classify_def Let_def vh defs using assms
    by (simp add: sel_if split del: if_split cong: if_cong)
  have q: "cr_confidence (classify clf description)
             = (if kept = [] then round_double 0.2 else calculate_confidence pats)"
    if vh: "verbatim_hits clf ?d = []"
    unfolding classify_def Let_def vh defs using assms
    by (simp add: sel_if split del: if_split cong: if_cong)
  have k: "\<not> (ch = [] \<and> bh = [] \<and> kh = [])" if "kept \<noteq> []"
    using that unfolding kept_def cats_def by (auto split: if_splits)
  have t: "calculate_confidence pats
             = (if ch = [] \<and> bh = [] \<and> kh = [] then round_double 0.2
                else confidence_of_counts (length bh) (length kh) (length ch))"
    unfolding pats_def by (rule calculate_confidence_tiers)
  have q': "cr_confidence (classify clf description)
             = (if kept = [] then round_double 0.2
                else confidence_of_counts (length bh) (length kh) (length ch))"
    if vh: "verbatim_hits clf ?d = []"
    using q [OF vh] k t by (cases "kept = []") simp_all
  show ?thesis
    unfolding Let_def
    using verbatim p [unfolded defs] c [unfolded defs] q' [unfolded defs]
    by (intro conjI impI) blast+
qed

theorem classify_tiers_witness:
  "cr_matched_patterns (classify ProductClassifier_init ''SKINCARE PRODUCTS'')
     = [''verbatim:skincare products'']
   \<and> cr_confidence (classify ProductClassifier_init ''SKINCARE PRODUCTS'')
     = 4278419646001971 / 4503599627370496
   \<and> cr_matched_patterns (classify ProductClassifier_init ''Profhilo 3, 2%, Box 1 Syringe 64mg 2ml'')
     = [''compound:'' @ pattern_src (lit ''profhilo'' @ [At Dot Star] @ lit ''syringe''),
        ''brand:profhilo'', ''keyword:'' @ pattern_src (word ''syringe'')]
   \<and> cr_categories (classify ProductClassifier_init ''Profhilo 3, 2%, Box 1 Syringe 64mg 2ml'')
     = [MEDICAL_DEVICES]
   \<and> cr_confidence (classify ProductClassifier_init ''Profhilo 3, 2%, Box 1 Syringe 64mg 2ml'') = 1
   \<and> cr_categories (classify ProductClassifier_init ''Moisturizing Cream 50ml'')
     = [SKINCARE_PRODUCTS]
   \<and> cr_confidence (classify ProductClassifier_init ''Moisturizing Cream 50ml'')
     = 5404319552844595 / 9007199254740992"
proof -
  let ?s = "''Profhilo 3, 2%, Box 1 Syringe 64mg 2ml''"
  let ?m = "''Moisturizing Cream 50ml''"
  have v: "verbatim_hits ProductClassifier_init (py_strip (py_lower ''SKINCARE PRODUCTS''))
             = [(''skincare products'', [SKINCARE_PRODUCTS])]"
    by code_simp
  have r95: "round_double 0.95 = 4278419646001971 / 4503599627370496" by code_simp
  have sv: "verbatim_hits ProductClassifier_init (py_strip (py_lower ?s)) = []" by code_simp
  have sc: "compound_hits ProductClassifier_init (py_strip (py_lower ?s))
             = [(lit ''profhilo'' @ [At Dot Star] @ lit ''syringe'', [MEDICAL_DEVICES])]"
    by code_simp
  have sb: "brand_hits ProductClassifier_init (py_strip (py_lower ?s)) = [(''profhilo'', MEDICAL_DEVICES)]"
    by code_simp
  have sk: "keyword_hits ProductClassifier_init (py_strip (py_lower ?s))
             = [(MEDICAL_DEVICES, word ''syringe'')]"
    by code_simp
  have mv: "verbatim_hits ProductClassifier_init (py_strip (py_lower ?m)) = []" by code_simp
  have mc: "compound_hits ProductClassifier_init (py_strip (py_lower ?m)) = []" by code_simp
  have mb: "brand_hits ProductClassifier_init (py_strip (py_lower ?m)) = []" by code_simp
  have mk: "keyword_hits ProductClassifier_init (py_strip (py_lower ?m))
             = [(SKINCARE_PRODUCTS, word ''cream'')]"
    by code_simp
  have c111: "confidence_of_counts (Suc 0) (Suc 0) (Suc 0) = 1" by code_simp
  have c010: "confidence_of_counts 0 (Suc 0) 0 = 5404319552844595 / 9007199254740992" by code_simp
  have s1: "sorted_categories [MEDICAL_DEVICES, MEDICAL_DEVICES, MEDICAL_DEVICES] = [MEDICAL_DEVICES]"
    by code_simp
  have s2: "sorted_categories [SKINCARE_PRODUCTS] = [SKINCARE_PRODUCTS]" by code_simp
  have e: "''SKINCARE PRODUCTS'' \<noteq> []" "?s \<noteq> []" "?m \<noteq> []" by simp_all
  have a: "cr_matched_patterns (classify ProductClassifier_init ''SKINCARE PRODUCTS'')
             = [''verbatim:skincare products'']
           \<and> cr_confidence (classify ProductClassifier_init ''SKINCARE PRODUCTS'')
             = 4278419646001971 / 4503599627370496"
    using classify_tiers [OF e(1), of ProductClassifier_init] unfolding Let_def v r95 by simp
  have b: "cr_matched_patterns (classify ProductClassifier_init ?s)
     = [''compound:'' @ pattern_src (lit ''profhilo'' @ [At Dot Star] @ lit ''syringe''),
        ''brand:profhilo'', ''keyword:'' @ pattern_src (word ''syringe'')]
   \<and> cr_categories (classify ProductClassifier_init ?s) = [MEDICAL_DEVICES]
   \<and> cr_confidence (classify ProductClassifier_init ?s) = 1"
    using classify_tiers [OF e(2), of ProductClassifier_init] unfolding Let_def sv sc sb sk
    by (simp add: c111 s1)
  have c: "cr_categories (classify ProductClassifier_init ?m) = [SKINCARE_PRODUCTS]
   \<and> cr_confidence (classify ProductClassifier_init ?m) = 5404319552844595 / 9007199254740992"
    using classify_tiers [OF e(3), of ProductClassifier_init] unfolding Let_def mv mc mb mk
    by (simp add: c010 s2)
  from a b c show ?thesis by blast
qed

section \<open>Response parsing\<close>

lemma json_match_object:
  "json_match (CHR ''{'' # xs @ ''}'') = Some (CHR ''{'' # xs @ ''}'')"
  by (simp add: json_match_def)

lemma json_match_notes_null: "json_match notes_null_text = Some notes_null_text"
  unfolding notes_null_text_def using json_match_object [of "[CHR 0x22] @ ''notes'' @ [CHR 0x22] @ '': null''"]
  by simp

lemma json_match_deep_nesting: "json_match deep_nesting_text = Some deep_nesting_text"
  unfolding deep_nesting_text_def
  using json_match_object [of "[CHR 0x22] @ ''a'' @ [CHR 0x22] @ '':'' @ replicate 2000 CHR ''[''"]
  by simp

lemma deep_nesting_not_notes_null: "deep_nesting_text \<noteq> notes_null_text"
  by (simp add: deep_nesting_text_def notes_null_text_def)

text \<open>
  The two parse failures the method handles, for every environment: no JSON object
  in the response, and a \<open>JSONDecodeError\<close> from \<open>json.loads\<close>. Both return a
  result of type unknown and confidence low with the error text and the raw response.
  Whatever else \<open>json.loads\<close> raises leaves \<open>parse_response\<close>; \<open>extract_from_image\<close>
  turns an exception of \<open>parse_response\<close> into a result.
\<close>

lemma parse_response_failures:
  "json_match raw = None \<Longrightarrow>
     parse_response env raw page pt = Inr (failure_result page raw [''No JSON found in response''])"
  "json_match raw = Some t \<Longrightarrow> json_loads env t = JSONDecodeError e \<Longrightarrow>
     parse_response env raw page pt
       = Inr (failure_result page raw [''JSON parse error: '' @ e])"
  "json_match raw = Some t \<Longrightarrow> json_loads env t = JsonRaised x \<Longrightarrow>
     parse_response env raw page pt = Inl x"
  "parse_response env raw page pt = Inl x \<Longrightarrow>
     extract_from_image env (ApiText raw) pt page = failure_result page [] [exn_text x]"
  by (simp_all add: parse_response_def extract_from_image_def)

lemma failure_result_fields:
  "ur_document_type (failure_result page raw errs) = UNKNOWN"
  "ur_confidence (failure_result page raw errs) = LOW"
  "ur_raw_response (failure_result page raw errs) = raw"
  "ur_extraction_errors (failure_result page raw errs) = errs"
  by (simp_all add: failure_result_def UncheckedResult_init_def)

text \<open>
  C7. Two responses on which \<open>parse_response\<close> raises to its caller. The response
  whose JSON object maps \<open>notes\<close> to \<open>null\<close> is well-formed, and under the invoice
  prompt the concatenation \<open>data.get('notes', '') + ...\<close> raises a TypeError. The
  response that opens 2000 brackets is malformed, \<open>json.loads\<close> raises
  \<open>RecursionError\<close> on it, and \<open>except json.JSONDecodeError\<close> does not catch that.
\<close>

theorem parse_response_raises:
  "parse_response sample_env notes_null_text 0 ''outbound_invoice''
     = Inl (TypeError (''unsupported operand type(s) for +: '' @ [CHR 0x27] @ ''NoneType''
                        @ [CHR 0x27] @ '' and '' @ [CHR 0x27] @ ''str'' @ [CHR 0x27]))
   \<and> parse_response sample_env deep_nesting_text 0 ''inbound''
     = Inl (RecursionError
              ''maximum recursion depth exceeded while decoding a JSON array from a unicode string'')"
proof -
  have l: "json_loads sample_env notes_null_text = JsonObject [(''notes'', PNone)]"
    by (simp add: sample_env_def)
  have p: "parse_outbound_invoice_response env [(''notes'', PNone)] raw page c errs
       = Inl (TypeError (''unsupported operand type(s) for +: '' @ [CHR 0x27] @ ''NoneType''
                          @ [CHR 0x27] @ '' and '' @ [CHR 0x27] @ ''str'' @ [CHR 0x27]))"
    for env raw page c errs
    by (simp add: parse_outbound_invoice_response_def dict_get_def dict_get_default_def
          py_add_str_def Let_def)
  have a: "parse_response sample_env notes_null_text 0 ''outbound_invoice''
     = Inl (TypeError (''unsupported operand type(s) for +: '' @ [CHR 0x27] @ ''NoneType''
                        @ [CHR 0x27] @ '' and '' @ [CHR 0x27] @ ''str'' @ [CHR 0x27]))"
    by (simp add: json_match_notes_null l parse_response_def p Let_def)
  have d: "json_loads sample_env deep_nesting_text
     = JsonRaised (RecursionError
         ''maximum recursion depth exceeded while decoding a JSON array from a unicode string'')"
    unfolding sample_env_def using deep_nesting_not_notes_null by simp
  have b: "parse_response sample_env deep_nesting_text 0 ''inbound''
     = Inl (RecursionError
              ''maximum recursion depth exceeded while decoding a JSON array from a unicode string'')"
    by (rule parse_response_failures(3) [OF json_match_deep_nesting d])
  from a b show ?thesis by (rule conjI)
qed

end
